theory Spec2Isabelle
  imports Complex_Main
begin

section \<open>Conversation store (package store, InMemoryConversationStore)\<close>

text \<open>
  The store is a Go \<open>map[string]string\<close> from user ids to conversation ids, guarded by a
  reader/writer lock. Every method holds the lock for its whole body, so each call is one
  atomic step on the map and is modelled as a function on the map.
\<close>

type_synonym store = "string \<rightharpoonup> string"

definition NewInMemoryConversationStore :: store where
  "NewInMemoryConversationStore = Map.empty"

text \<open>\<open>conversationID, ok := s.store[userID]\<close>: a missing key reads as the zero value
  (the empty string) with \<open>ok = false\<close>.\<close>

definition GetConversationID :: "store \<Rightarrow> string \<Rightarrow> string \<times> bool" where
  "GetConversationID s userID =
     (case s userID of Some conversationID \<Rightarrow> (conversationID, True) | None \<Rightarrow> ([], False))"

definition SaveConversationID :: "store \<Rightarrow> string \<Rightarrow> string \<Rightarrow> store" where
  "SaveConversationID s userID conversationID = s(userID \<mapsto> conversationID)"

text \<open>
  \<open>uuid.New().String()\<close> is the only input of \<open>NewConversationID\<close> besides the user
  id. The generator is passed in: \<open>Some c\<close> is the generated id, \<open>None\<close> is the panic of
  \<open>uuid.New\<close> when the random source fails, which happens before the map is written.
\<close>

definition NewConversationID :: "store \<Rightarrow> string option \<Rightarrow> string \<Rightarrow> string option \<times> store" where
  "NewConversationID s uuid userID =
     (case uuid of
        None \<Rightarrow> (None, s)
      | Some conversationID \<Rightarrow> (Some conversationID, s(userID \<mapsto> conversationID)))"

definition DeleteConversationID :: "store \<Rightarrow> string \<Rightarrow> store" where
  "DeleteConversationID s userID = s(userID := None)"

text \<open>A client's sequence of calls on the \<open>ConversationStore\<close> interface.\<close>

datatype store_call =
    CallGet string
  | CallSave string string
  | CallNew string "string option"
  | CallDelete string

fun store_step :: "store \<Rightarrow> store_call \<Rightarrow> store" where
  "store_step s (CallGet u) = s"
| "store_step s (CallSave u c) = SaveConversationID s u c"
| "store_step s (CallNew u g) = snd (NewConversationID s g u)"
| "store_step s (CallDelete u) = DeleteConversationID s u"

definition store_run :: "store \<Rightarrow> store_call list \<Rightarrow> store" where
  "store_run s calls = foldl store_step s calls"

text \<open>A call is a save or a generate for user \<open>u\<close>.\<close>

fun assigns :: "string \<Rightarrow> store_call \<Rightarrow> bool" where
  "assigns u (CallSave u' c) = (u' = u)"
| "assigns u (CallNew u' g) = (u' = u)"
| "assigns u _ = False"

section \<open>Values shared by the service code\<close>

text \<open>
  A Go \<open>string\<close> is a sequence of bytes and \<open>len\<close> counts bytes; it is modelled as
  \<open>string\<close>, whose characters are bytes. Text outside ASCII is written as its UTF-8 bytes.

  A value of type \<open>interface{}\<close> produced by \<open>encoding/json\<close> is \<open>nil\<close>, a \<open>bool\<close>, a
  \<open>float64\<close> (finite, hence a rational), a \<open>string\<close>, a slice or a map. A Go
  \<open>map[string]interface{}\<close> held in a variable or a field is a partial function; nested
  inside a JSON value it is an association list.
\<close>

datatype json =
    JNull
  | JBool bool
  | JNumber rat
  | JString string
  | JArray "json list"
  | JObject "(string \<times> json) list"

type_synonym gomap = "string \<rightharpoonup> json"

text \<open>The type assertion \<open>v, ok := m[key].(string)\<close>: it succeeds only on a present key
  that holds a string.\<close>

definition string_field :: "gomap \<Rightarrow> string \<Rightarrow> string option" where
  "string_field m key = (case m key of Some (JString v) \<Rightarrow> Some v | _ \<Rightarrow> None)"

text \<open>
  Go errors. \<open>Opaque\<close> is an error value made outside the service code (by \<open>net/http\<close>,
  \<open>os\<close>, \<open>io\<close>, \<open>encoding/json\<close> or the WeCom robot); every other constructor is one
  \<open>fmt.Errorf\<close> of the service code, with the values it formats and the error it wraps.
\<close>

datatype err =
    Opaque string
  | CreateRequestFailed string err
  | RetriesExhausted string nat err
  | ReadBodyFailed string err
  | DifyAPIError string string string
  | ErrorStatus string int string
  | ParseSuccessFailed string err
  | NotConfigured
  | MarshalChatFailed err
  | MarshalCompletionFailed err
  | MarshalWorkflowFailed err
  | NoValidAnswer
  | NoValidText
  | NoValidData
  | DownloadGetFailed string err
  | DownloadStatus int string
  | CreateLocalFailed string err
  | WriteDownloadedFailed string err
  | OpenFileFailed err
  | CreateFormFileFailed err
  | CopyFileContentFailed err
  | WriteUserFieldFailed err
  | PreprocessingFailed err
  | EmptyMessageAndFile
  | UploadToDifyFailed err
  | ChatCallFailed err
  | CompletionCallFailed err
  | WorkflowCallFailed err
  | UnsupportedBotType string
  | CallDifyFailed err
  | PostprocessFailed err

text \<open>
  What a Go function call comes to: it returns its value with a nil error (\<open>Ok\<close>), returns
  a non-nil error (\<open>Fail\<close>), or panics. A function whose only result is \<open>error\<close> has the
  type \<open>unit res\<close>.
\<close>

datatype 'a res = Ok 'a | Fail err | Panic

record DifyConfig =
  APIKey :: string
  BaseURL :: string
  BotType :: string
  WorkflowID :: string
  DefaultPrompt :: string

record DifyAPIErrorResponse =
  Code :: string
  Message :: string
  Status :: int

record DifyBaseRequest =
  Inputs :: "gomap option"
  User :: string
  ResponseMode :: string
  Files :: "gomap list"

record DifyChatRequest = DifyBaseRequest +
  Query :: string
  ConversationID :: string

record DifyCompletionRequest = DifyBaseRequest +
  Prompt :: string

record DifyWorkflowRequest = DifyBaseRequest +
  WorkflowID :: string

record DifyChatResponse =
  Answer :: string

record DifyCompletionResponse =
  Text :: string

text \<open>\<open>Data\<close> is a map field: \<open>None\<close> is the nil map.\<close>

record DifyWorkflowResponse =
  Data :: "gomap option"

definition difyChatMessagesPath :: string where
  "difyChatMessagesPath = ''/v1/chat-messages''"

definition difyCompletionMessagesPath :: string where
  "difyCompletionMessagesPath = ''/v1/completion-messages''"

definition difyWorkflowRunPath :: string where
  "difyWorkflowRunPath = ''/v1/workflows/run''"

definition responseModeBlocking :: string where
  "responseModeBlocking = ''blocking''"

definition defaultRole :: string where
  "defaultRole = [CHR 0xE5, CHR 0x91, CHR 0x98, CHR 0xE5, CHR 0xB7, CHR 0xA5]"

definition maxRetries :: nat where
  "maxRetries = 3"

definition difyFileUploadPath :: string where
  "difyFileUploadPath = ''/files/upload''"

section \<open>The world outside the service code\<close>

text \<open>
  An HTTP request as \<open>doDifyRequest\<close> builds it, and what the client hands back: the status
  code and what \<open>io.ReadAll\<close> on the body returns.
\<close>

record http_request =
  Method :: string
  URL :: string
  Body :: string
  ContentType :: string
  Authorization :: string

record http_response =
  StatusCode :: int
  ReadAll :: "err + string"

text \<open>What building the multipart body of an upload comes to: one of the three failures
  the source checks for, or the body with its content type.\<close>

datatype multipart_form =
    FormFileError err
  | FormCopyError err
  | FormUserFieldError err
  | FormBody string string

text \<open>
  Everything the code asks of its surroundings is a field of \<open>world\<close>; \<open>Inl\<close> and \<open>Some\<close>
  carry the error of a failed call.
  \<^item> \<open>httpNewRequest method url\<close>: \<open>http.NewRequest\<close>;
  \<^item> \<open>httpClientDo req i\<close>: the \<open>i\<close>-th call (from 0) of \<open>httpClient.Do\<close> on \<open>req\<close>;
  \<^item> \<open>httpClientGet url\<close>: \<open>httpClient.Get\<close>;
  \<^item> \<open>osCreate\<close>, \<open>ioCopyBody\<close>, \<open>osCreateTemp\<close>, \<open>osOpen\<close>: the file system;
  \<^item> \<open>multipartForm filePath user\<close>: the form built by \<open>mime/multipart\<close>;
  \<^item> \<open>jsonMarshal\<dots>\<close>, \<open>jsonUnmarshal\<dots>\<close>: \<open>encoding/json\<close> at each type it is used at
    (the JSON text \<open>null\<close> decodes into a map variable without an error and leaves it
    nil, which reads as the empty map; \<open>jsonMarshalIndent\<close> gives the text of its error);
  \<^item> \<open>SendTextMessage\<close>, \<open>SendMarkdownMessage\<close>, \<open>SendImageMessage\<close>,
    \<open>SendFileMessage\<close>: the WeCom robot, the outbound channel;
  \<^item> \<open>runeSliceCap n\<close>: the capacity the runtime gives the slice of a \<open>[]rune(s)\<close>
    conversion of \<open>n\<close> runes (the language fixes only its length);
  \<^item> \<open>stringsToLower\<close>: \<open>strings.ToLower\<close>.
\<close>

record world =
  httpNewRequest :: "string \<Rightarrow> string \<Rightarrow> err option"
  httpClientDo :: "http_request \<Rightarrow> nat \<Rightarrow> err + http_response"
  httpClientGet :: "string \<Rightarrow> err + http_response"
  osCreate :: "string \<Rightarrow> err option"
  ioCopyBody :: "string \<Rightarrow> string \<Rightarrow> err option"
  osCreateTemp :: "string \<Rightarrow> err + string"
  osOpen :: "string \<Rightarrow> err option"
  multipartForm :: "string \<Rightarrow> string \<Rightarrow> multipart_form"
  jsonMarshalChat :: "DifyChatRequest \<Rightarrow> err + string"
  jsonMarshalCompletion :: "DifyCompletionRequest \<Rightarrow> err + string"
  jsonMarshalWorkflow :: "DifyWorkflowRequest \<Rightarrow> err + string"
  jsonMarshalIndent :: "gomap option \<Rightarrow> string + string"
  jsonUnmarshalMap :: "string \<Rightarrow> err + gomap"
  jsonUnmarshalError :: "string \<Rightarrow> err + DifyAPIErrorResponse"
  jsonUnmarshalChat :: "string \<Rightarrow> err + DifyChatResponse"
  jsonUnmarshalCompletion :: "string \<Rightarrow> err + DifyCompletionResponse"
  jsonUnmarshalWorkflow :: "string \<Rightarrow> err + DifyWorkflowResponse"
  SendTextMessage :: "string \<Rightarrow> err option"
  SendMarkdownMessage :: "string \<Rightarrow> err option"
  SendImageMessage :: "string \<Rightarrow> err option"
  SendFileMessage :: "string \<Rightarrow> err option"
  runeSliceCap :: "nat \<Rightarrow> nat"
  stringsToLower :: "string \<Rightarrow> string"

text \<open>
  The effects of a call, in the order they happen: requests to the backend, sleeps (in
  seconds), the download GET, file-system calls and sends on the outbound channel. Log
  lines are not recorded.
\<close>

datatype event =
    EvHttpDo http_request
  | EvSleep nat
  | EvHttpGet string
  | EvOsCreate string
  | EvCopyBody string string
  | EvCreateTemp string
  | EvOpen string
  | EvRemove string
  | EvSendText string
  | EvSendMarkdown string
  | EvSendImage string
  | EvSendFile string

section \<open>The retrying HTTP primitive (DifyService.doDifyRequest)\<close>

text \<open>
  The loop \<open>for i := 0; i < maxRetries; i++\<close>, on the variables \<open>resp\<close> and \<open>err\<close>. A
  call of \<open>Do\<close> that returns no error breaks out; a failed one sleeps \<open>i + 1\<close> seconds
  unless it was the last.
\<close>

function doDifyRequest_loop ::
  "world \<Rightarrow> http_request \<Rightarrow> nat \<Rightarrow> http_response option \<times> err option
     \<Rightarrow> event list \<times> (http_response option \<times> err option)" where
  "doDifyRequest_loop w req i st =
     (if i < maxRetries then
        (case httpClientDo w req i of
           Inr r \<Rightarrow> ([EvHttpDo req], (Some r, None))
         | Inl e \<Rightarrow>
             (let (trace, st') = doDifyRequest_loop w req (i + 1) (None, Some e)
              in (EvHttpDo req # (if i < maxRetries - 1 then [EvSleep (i + 1)] else []) @ trace,
                  st')))
      else ([], st))"
  by pat_completeness auto
termination
  by (relation "measure (\<lambda>(w, req, i, st). maxRetries - i)") auto

text \<open>The request after \<open>http.NewRequest\<close> and the two \<open>Header.Set\<close> calls.\<close>

definition difyRequest :: "DifyConfig \<Rightarrow> string \<Rightarrow> string \<Rightarrow> string \<Rightarrow> string \<Rightarrow> http_request" where
  "difyRequest cfg method fullURL body contentType =
     \<lparr>Method = method, URL = fullURL, Body = body, ContentType = contentType,
      Authorization = ''Bearer '' @ APIKey cfg\<rparr>"

text \<open>
  \<open>responseStruct\<close> is the decoder of the destination's type when a destination is passed
  and \<open>None\<close> when it is nil; the decoded value is returned. A nil \<open>resp\<close> with a nil
  \<open>err\<close> after the loop would be dereferenced (a panic).
\<close>

definition doDifyRequest ::
  "DifyConfig \<Rightarrow> world \<Rightarrow> string \<Rightarrow> string \<Rightarrow> string \<Rightarrow> string \<Rightarrow> string
     \<Rightarrow> (string \<Rightarrow> err + 'a) option \<Rightarrow> event list \<times> 'a option res" where
  "doDifyRequest cfg w method path body contentType logPrefix responseStruct =
     (let fullURL = BaseURL cfg @ path in
      case httpNewRequest w method fullURL of
        Some e \<Rightarrow> ([], Fail (CreateRequestFailed logPrefix e))
      | None \<Rightarrow>
          (let req = difyRequest cfg method fullURL body contentType;
               (trace, resp, err) = doDifyRequest_loop w req 0 (None, None)
           in case err of
                Some e \<Rightarrow> (trace, Fail (RetriesExhausted logPrefix maxRetries e))
              | None \<Rightarrow>
                  (case resp of
                     None \<Rightarrow> (trace, Panic)
                   | Some resp \<Rightarrow>
                       (case ReadAll resp of
                          Inl e \<Rightarrow> (trace, Fail (ReadBodyFailed logPrefix e))
                        | Inr respBody \<Rightarrow>
                            if StatusCode resp \<noteq> 200 then
                              (case jsonUnmarshalError w respBody of
                                 Inr errorResponse \<Rightarrow>
                                   (trace, Fail (DifyAPIError logPrefix (Code errorResponse)
                                                   (Message errorResponse)))
                               | Inl _ \<Rightarrow>
                                   (trace, Fail (ErrorStatus logPrefix (StatusCode resp) respBody)))
                            else
                              (case responseStruct of
                                 None \<Rightarrow> (trace, Ok None)
                               | Some decode \<Rightarrow>
                                   (case decode respBody of
                                      Inl e \<Rightarrow> (trace, Fail (ParseSuccessFailed logPrefix e))
                                    | Inr v \<Rightarrow> (trace, Ok (Some v))))))))"

section \<open>The backend client (DifyService)\<close>

definition of_error :: "err option \<Rightarrow> unit res" where
  "of_error e = (case e of None \<Rightarrow> Ok () | Some x \<Rightarrow> Fail x)"

text \<open>
  \<open>CallDifyChatAPI\<close>. The request is a copy of the caller's; \<open>response\<close> starts as the
  zero value and is what \<open>doDifyRequest\<close> decoded.
\<close>

definition CallDifyChatAPI ::
  "DifyConfig \<Rightarrow> world \<Rightarrow> DifyChatRequest \<Rightarrow> event list \<times> DifyChatResponse res" where
  "CallDifyChatAPI cfg w request =
     (if BaseURL cfg = [] \<or> APIKey cfg = [] then ([], Fail NotConfigured)
      else
        (let request = (if Inputs request = None then request\<lparr>Inputs := Some Map.empty\<rparr>
                        else request);
             request = (case Inputs request of
                          Some m \<Rightarrow>
                            if m ''role'' = None
                            then request\<lparr>Inputs := Some (m(''role'' \<mapsto> JString defaultRole))\<rparr>
                            else request
                        | None \<Rightarrow> request);
             request = request\<lparr>ResponseMode := responseModeBlocking\<rparr>
         in case jsonMarshalChat w request of
              Inl e \<Rightarrow> ([], Fail (MarshalChatFailed e))
            | Inr jsonData \<Rightarrow>
                (case doDifyRequest cfg w ''POST'' difyChatMessagesPath jsonData
                        ''application/json'' ''Chat API'' (Some (jsonUnmarshalChat w)) of
                   (trace, Fail e) \<Rightarrow> (trace, Fail e)
                 | (trace, Panic) \<Rightarrow> (trace, Panic)
                 | (trace, Ok decoded) \<Rightarrow>
                     (let response = (case decoded of Some r \<Rightarrow> r | None \<Rightarrow> \<lparr>Answer = []\<rparr>)
                      in if Answer response = [] then (trace, Fail NoValidAnswer)
                         else (trace, Ok response)))))"

text \<open>\<open>DownloadFile\<close>: a plain GET, then the body is copied to the local file.\<close>

definition DownloadFile :: "world \<Rightarrow> string \<Rightarrow> string \<Rightarrow> event list \<times> err option" where
  "DownloadFile w fileURL outputPath =
     (case httpClientGet w fileURL of
        Inl e \<Rightarrow> ([EvHttpGet fileURL], Some (DownloadGetFailed fileURL e))
      | Inr resp \<Rightarrow>
          if StatusCode resp \<noteq> 200
          then ([EvHttpGet fileURL], Some (DownloadStatus (StatusCode resp) fileURL))
          else
            (case osCreate w outputPath of
               Some e \<Rightarrow>
                 ([EvHttpGet fileURL, EvOsCreate outputPath], Some (CreateLocalFailed outputPath e))
             | None \<Rightarrow>
                 (case ioCopyBody w fileURL outputPath of
                    Some e \<Rightarrow>
                      ([EvHttpGet fileURL, EvOsCreate outputPath, EvCopyBody fileURL outputPath],
                       Some (WriteDownloadedFailed outputPath e))
                  | None \<Rightarrow>
                      ([EvHttpGet fileURL, EvOsCreate outputPath, EvCopyBody fileURL outputPath],
                       None))))"

text \<open>\<open>UploadFile\<close>. The decoded response is a map variable; a nil map reads as the
  empty map.\<close>

definition UploadFile ::
  "DifyConfig \<Rightarrow> world \<Rightarrow> string \<Rightarrow> string \<Rightarrow> event list \<times> gomap res" where
  "UploadFile cfg w filePath user =
     (if BaseURL cfg = [] \<or> APIKey cfg = [] then ([], Fail NotConfigured)
      else
        (case osOpen w filePath of
           Some e \<Rightarrow> ([EvOpen filePath], Fail (OpenFileFailed e))
         | None \<Rightarrow>
             (case multipartForm w filePath user of
                FormFileError e \<Rightarrow> ([EvOpen filePath], Fail (CreateFormFileFailed e))
              | FormCopyError e \<Rightarrow> ([EvOpen filePath], Fail (CopyFileContentFailed e))
              | FormUserFieldError e \<Rightarrow> ([EvOpen filePath], Fail (WriteUserFieldFailed e))
              | FormBody body contentType \<Rightarrow>
                  (case doDifyRequest cfg w ''POST'' difyFileUploadPath body contentType
                          ''File Upload API'' (Some (jsonUnmarshalMap w)) of
                     (trace, Fail e) \<Rightarrow> (EvOpen filePath # trace, Fail e)
                   | (trace, Panic) \<Rightarrow> (EvOpen filePath # trace, Panic)
                   | (trace, Ok decoded) \<Rightarrow>
                       (EvOpen filePath # trace,
                        Ok (case decoded of Some response \<Rightarrow> response | None \<Rightarrow> Map.empty))))))"

definition CallDifyCompletionAPI ::
  "DifyConfig \<Rightarrow> world \<Rightarrow> DifyCompletionRequest \<Rightarrow> event list \<times> DifyCompletionResponse res" where
  "CallDifyCompletionAPI cfg w request =
     (if BaseURL cfg = [] \<or> APIKey cfg = [] then ([], Fail NotConfigured)
      else
        (let request = (if Inputs request = None then request\<lparr>Inputs := Some Map.empty\<rparr>
                        else request);
             request = (case Inputs request of
                          Some m \<Rightarrow>
                            if m ''role'' = None
                            then request\<lparr>Inputs := Some (m(''role'' \<mapsto> JString defaultRole))\<rparr>
                            else request
                        | None \<Rightarrow> request);
             request = request\<lparr>ResponseMode := responseModeBlocking\<rparr>
         in case jsonMarshalCompletion w request of
              Inl e \<Rightarrow> ([], Fail (MarshalCompletionFailed e))
            | Inr jsonData \<Rightarrow>
                (case doDifyRequest cfg w ''POST'' difyCompletionMessagesPath jsonData
                        ''application/json'' ''Completion API''
                        (Some (jsonUnmarshalCompletion w)) of
                   (trace, Fail e) \<Rightarrow> (trace, Fail e)
                 | (trace, Panic) \<Rightarrow> (trace, Panic)
                 | (trace, Ok decoded) \<Rightarrow>
                     (let response = (case decoded of Some r \<Rightarrow> r | None \<Rightarrow> \<lparr>Text = []\<rparr>)
                      in if Text response = [] then (trace, Fail NoValidText)
                         else (trace, Ok response)))))"

definition CallDifyWorkflowAPI ::
  "DifyConfig \<Rightarrow> world \<Rightarrow> DifyWorkflowRequest \<Rightarrow> event list \<times> DifyWorkflowResponse res" where
  "CallDifyWorkflowAPI cfg w request =
     (if BaseURL cfg = [] \<or> APIKey cfg = [] then ([], Fail NotConfigured)
      else
        (let request = (if Inputs request = None then request\<lparr>Inputs := Some Map.empty\<rparr>
                        else request);
             request = request\<lparr>ResponseMode := responseModeBlocking\<rparr>
         in case jsonMarshalWorkflow w request of
              Inl e \<Rightarrow> ([], Fail (MarshalWorkflowFailed e))
            | Inr jsonData \<Rightarrow>
                (case doDifyRequest cfg w ''POST'' difyWorkflowRunPath jsonData
                        ''application/json'' ''Workflow API'' (Some (jsonUnmarshalWorkflow w)) of
                   (trace, Fail e) \<Rightarrow> (trace, Fail e)
                 | (trace, Panic) \<Rightarrow> (trace, Panic)
                 | (trace, Ok decoded) \<Rightarrow>
                     (let response = (case decoded of Some r \<Rightarrow> r | None \<Rightarrow> \<lparr>Data = None\<rparr>)
                      in if Data response = None then (trace, Fail NoValidData)
                         else (trace, Ok response)))))"

section \<open>Strings, runes and paths (the Go runtime and library calls the formatter uses)\<close>

text \<open>
  \<open>filepath.Ext\<close> on a system whose path separator is \<open>/\<close>: the path is scanned from
  its end up to the last separator, and the suffix from the last dot on is returned.
\<close>

fun Ext_scan :: "string \<Rightarrow> string \<Rightarrow> string" where
  "Ext_scan [] suffix = []"
| "Ext_scan (c # front) suffix =
     (if c = CHR ''/'' then []
      else if c = CHR ''.'' then c # suffix
      else Ext_scan front (c # suffix))"

definition filepathExt :: "string \<Rightarrow> string" where
  "filepathExt path = Ext_scan (rev path) []"

definition stringsHasPrefix :: "string \<Rightarrow> string \<Rightarrow> bool" where
  "stringsHasPrefix s pre = (length pre \<le> length s \<and> take (length pre) s = pre)"

text \<open>A \<open>rune\<close> is an \<open>int32\<close>.\<close>

type_synonym rune = int

definition runeError :: rune where
  "runeError = 0xFFFD"

definition byte :: "char \<Rightarrow> nat" where
  "byte c = of_char c"

definition continuation :: "char \<Rightarrow> bool" where
  "continuation c = (0x80 \<le> byte c \<and> byte c \<le> 0xBF)"

text \<open>
  The runtime's \<open>decoderune\<close>, as the \<open>[]rune(s)\<close> conversion uses it: the first rune
  of a non-empty string and the number of bytes it takes. A byte that starts no well-formed
  encoding (a stray continuation byte, a truncated or overlong sequence, a surrogate, a
  value above \<open>0x10FFFF\<close>) decodes to \<open>runeError\<close> and takes one byte.
\<close>

fun decoderune :: "string \<Rightarrow> rune \<times> nat" where
  "decoderune [] = (runeError, 1)"
| "decoderune (c0 # s) =
     (if byte c0 < 0x80 then (int (byte c0), 1)
      else if 0xC0 \<le> byte c0 \<and> byte c0 < 0xE0 then
        (case s of
           c1 # _ \<Rightarrow>
             (let r = (byte c0 mod 0x20) * 0x40 + byte c1 mod 0x40
              in if continuation c1 \<and> 0x7F < r then (int r, 2) else (runeError, 1))
         | _ \<Rightarrow> (runeError, 1))
      else if 0xE0 \<le> byte c0 \<and> byte c0 < 0xF0 then
        (case s of
           c1 # c2 # _ \<Rightarrow>
             (let r = (byte c0 mod 0x10) * 0x1000 + (byte c1 mod 0x40) * 0x40 + byte c2 mod 0x40
              in if continuation c1 \<and> continuation c2 \<and> 0x7FF < r
                    \<and> \<not> (0xD800 \<le> r \<and> r \<le> 0xDFFF)
                 then (int r, 3) else (runeError, 1))
         | _ \<Rightarrow> (runeError, 1))
      else if 0xF0 \<le> byte c0 \<and> byte c0 < 0xF8 then
        (case s of
           c1 # c2 # c3 # _ \<Rightarrow>
             (let r = (byte c0 mod 0x08) * 0x40000 + (byte c1 mod 0x40) * 0x1000
                        + (byte c2 mod 0x40) * 0x40 + byte c3 mod 0x40
              in if continuation c1 \<and> continuation c2 \<and> continuation c3
                    \<and> 0xFFFF < r \<and> r \<le> 0x10FFFF
                 then (int r, 4) else (runeError, 1))
         | _ \<Rightarrow> (runeError, 1))
      else (runeError, 1))"

text \<open>The conversion \<open>[]rune(s)\<close>.\<close>

fun stringtoslicerune :: "string \<Rightarrow> rune list" where
  "stringtoslicerune [] = []"
| "stringtoslicerune (c # s) =
     fst (decoderune (c # s)) # stringtoslicerune (drop (snd (decoderune (c # s)) - 1) s)"

text \<open>
  The runtime's \<open>encoderune\<close>, on \<open>uint32(r)\<close>: a negative rune, a surrogate and a value
  above \<open>0x10FFFF\<close> are written as \<open>runeError\<close>.
\<close>

definition encoderune :: "rune \<Rightarrow> string" where
  "encoderune r =
     (if 0 \<le> r \<and> r \<le> 0x7F then [char_of r]
      else if 0 \<le> r \<and> r \<le> 0x7FF then [char_of (0xC0 + r div 0x40), char_of (0x80 + r mod 0x40)]
      else if r < 0 \<or> 0x10FFFF < r \<or> (0xD800 \<le> r \<and> r \<le> 0xDFFF)
        then [CHR 0xEF, CHR 0xBF, CHR 0xBD]
      else if r \<le> 0xFFFF
        then [char_of (0xE0 + r div 0x1000), char_of (0x80 + (r div 0x40) mod 0x40),
              char_of (0x80 + r mod 0x40)]
      else [char_of (0xF0 + r div 0x40000), char_of (0x80 + (r div 0x1000) mod 0x40),
            char_of (0x80 + (r div 0x40) mod 0x40), char_of (0x80 + r mod 0x40)])"

text \<open>The conversion \<open>string(runes)\<close>.\<close>

definition slicerunetostring :: "rune list \<Rightarrow> string" where
  "slicerunetostring a = concat (map encoderune a)"

text \<open>
  The slice expression \<open>a[:high]\<close> on a slice of capacity \<open>capacity\<close> (at least its
  length): it panics (\<open>None\<close>) when \<open>high\<close> exceeds the capacity, and otherwise has
  \<open>high\<close> elements, those beyond the length of \<open>a\<close> being the zeroed spare elements
  of the allocation.
\<close>

definition slice_to :: "nat \<Rightarrow> rune list \<Rightarrow> nat \<Rightarrow> rune list option" where
  "slice_to capacity a high =
     (if high \<le> max capacity (length a)
      then Some (take high (a @ replicate (high - length a) 0))
      else None)"

section \<open>The formatter (MessageConverter.postprocessDifyResponse)\<close>

definition maxWeComMessageLength :: nat where
  "maxWeComMessageLength = 2048"

text \<open>The note appended to a truncated text,
  \<open>"\n... (\<dots>)"\<close>, as its bytes.\<close>

definition truncationNote :: string where
  "truncationNote =
     [CHR 0x0A, CHR 0x2E, CHR 0x2E, CHR 0x2E, CHR 0x20, CHR 0x28, CHR 0xE6, CHR 0xB6,
      CHR 0x88, CHR 0xE6, CHR 0x81, CHR 0xAF, CHR 0xE5, CHR 0xB7, CHR 0xB2, CHR 0xE6,
      CHR 0x88, CHR 0xAA, CHR 0xE6, CHR 0x96, CHR 0xAD, CHR 0xEF, CHR 0xBC, CHR 0x8C,
      CHR 0xE8, CHR 0xAF, CHR 0xB7, CHR 0xE6, CHR 0x9F, CHR 0xA5, CHR 0xE7, CHR 0x9C,
      CHR 0x8B, CHR 0x20, CHR 0x44, CHR 0x69, CHR 0x66, CHR 0x79, CHR 0x20, CHR 0xE5,
      CHR 0x90, CHR 0x8E, CHR 0xE5, CHR 0x8F, CHR 0xB0, CHR 0xE8, CHR 0x8E, CHR 0xB7,
      CHR 0xE5, CHR 0x8F, CHR 0x96, CHR 0xE5, CHR 0xAE, CHR 0x8C, CHR 0xE6, CHR 0x95,
      CHR 0xB4, CHR 0xE5, CHR 0x86, CHR 0x85, CHR 0xE5, CHR 0xAE, CHR 0xB9, CHR 0x29]"

text \<open>The texts of \<open>"Dify \<dots>: %s\<dots>"\<close> around the URL: the image and file
  prefixes, and the suffixes saying that the download, or the send, failed.\<close>

definition imageNoticePrefix :: string where
  "imageNoticePrefix =
     [CHR 0x44, CHR 0x69, CHR 0x66, CHR 0x79, CHR 0x20, CHR 0xE8, CHR 0xBF, CHR 0x94,
      CHR 0xE5, CHR 0x9B, CHR 0x9E, CHR 0xE4, CHR 0xBA, CHR 0x86, CHR 0xE4, CHR 0xB8,
      CHR 0x80, CHR 0xE5, CHR 0xBC, CHR 0xA0, CHR 0xE5, CHR 0x9B, CHR 0xBE, CHR 0xE7,
      CHR 0x89, CHR 0x87, CHR 0x3A, CHR 0x20]"

definition fileNoticePrefix :: string where
  "fileNoticePrefix =
     [CHR 0x44, CHR 0x69, CHR 0x66, CHR 0x79, CHR 0x20, CHR 0xE8, CHR 0xBF, CHR 0x94,
      CHR 0xE5, CHR 0x9B, CHR 0x9E, CHR 0xE4, CHR 0xBA, CHR 0x86, CHR 0xE4, CHR 0xB8,
      CHR 0x80, CHR 0xE4, CHR 0xB8, CHR 0xAA, CHR 0xE6, CHR 0x96, CHR 0x87, CHR 0xE4,
      CHR 0xBB, CHR 0xB6, CHR 0x3A, CHR 0x20]"

definition downloadFailedSuffix :: string where
  "downloadFailedSuffix =
     [CHR 0xEF, CHR 0xBC, CHR 0x8C, CHR 0xE4, CHR 0xBD, CHR 0x86, CHR 0xE4, CHR 0xB8,
      CHR 0x8B, CHR 0xE8, CHR 0xBD, CHR 0xBD, CHR 0xE5, CHR 0xA4, CHR 0xB1, CHR 0xE8,
      CHR 0xB4, CHR 0xA5, CHR 0xE3, CHR 0x80, CHR 0x82]"

definition sendFailedSuffix :: string where
  "sendFailedSuffix =
     [CHR 0xEF, CHR 0xBC, CHR 0x8C, CHR 0xE4, CHR 0xBD, CHR 0x86, CHR 0xE5, CHR 0x8F,
      CHR 0x91, CHR 0xE9, CHR 0x80, CHR 0x81, CHR 0xE5, CHR 0xA4, CHR 0xB1, CHR 0xE8,
      CHR 0xB4, CHR 0xA5, CHR 0xE3, CHR 0x80, CHR 0x82]"

text \<open>The pattern handed to \<open>os.CreateTemp\<close>: the prefix with the extension of the URL,
  or with the default extension when the URL has none.\<close>

definition tempPattern :: "string \<Rightarrow> string \<Rightarrow> string \<Rightarrow> string" where
  "tempPattern tempPrefix defaultExt url =
     (let ext = filepathExt url;
          ext = (if ext = [] then defaultExt else ext)
      in tempPrefix @ ext)"

text \<open>
  The branch taken for a non-empty \<open>image_url\<close> (and, with \<open>SendFileMessage\<close>, the
  \<open>.bin\<close> default and the file texts, for a non-empty \<open>file_url\<close>). \<open>os.Remove\<close> is
  called at once when the download fails, and deferred (run after the value returned has
  been computed) once the download has succeeded.
\<close>

definition postprocess_media ::
  "world \<Rightarrow> (world \<Rightarrow> string \<Rightarrow> err option) \<Rightarrow> (string \<Rightarrow> event) \<Rightarrow> string \<Rightarrow> string
     \<Rightarrow> string \<Rightarrow> string \<Rightarrow> event list \<times> unit res" where
  "postprocess_media w sendMedia evSend tempPrefix defaultExt noticePrefix url =
     (let pattern = tempPattern tempPrefix defaultExt url;
          downloadFailed = noticePrefix @ url @ downloadFailedSuffix;
          sendFailed = noticePrefix @ url @ sendFailedSuffix
      in case osCreateTemp w pattern of
           Inl e \<Rightarrow>
             ([EvCreateTemp pattern, EvSendText downloadFailed],
              of_error (SendTextMessage w downloadFailed))
         | Inr tempFilePath \<Rightarrow>
             (case DownloadFile w url tempFilePath of
                (trace, Some e) \<Rightarrow>
                  (EvCreateTemp pattern # trace
                     @ [EvRemove tempFilePath, EvSendText downloadFailed],
                   of_error (SendTextMessage w downloadFailed))
              | (trace, None) \<Rightarrow>
                  (case sendMedia w tempFilePath of
                     Some e \<Rightarrow>
                       (EvCreateTemp pattern # trace
                          @ [evSend tempFilePath, EvSendText sendFailed, EvRemove tempFilePath],
                        of_error (SendTextMessage w sendFailed))
                   | None \<Rightarrow>
                       (EvCreateTemp pattern # trace
                          @ [evSend tempFilePath, EvRemove tempFilePath],
                        Ok ()))))"

definition postprocess_image :: "world \<Rightarrow> string \<Rightarrow> event list \<times> unit res" where
  "postprocess_image w imageUrl =
     postprocess_media w SendImageMessage EvSendImage ''dify_image_*'' ''.png''
       imageNoticePrefix imageUrl"

definition postprocess_file :: "world \<Rightarrow> string \<Rightarrow> event list \<times> unit res" where
  "postprocess_file w fileUrl =
     postprocess_media w SendFileMessage EvSendFile ''dify_file_*'' ''.bin''
       fileNoticePrefix fileUrl"

text \<open>
  The plain-text path (from \<open>const maxWeComMessageLength\<close> to the end of the function):
  a response longer than 2048 bytes is cut to its first \<open>2048 - 50\<close> runes and the note
  is appended.
\<close>

definition postprocess_text :: "world \<Rightarrow> string \<Rightarrow> event list \<times> unit res" where
  "postprocess_text w difyResponse =
     (if maxWeComMessageLength < length difyResponse then
        (let runes = stringtoslicerune difyResponse
         in case slice_to (runeSliceCap w (length runes)) runes (maxWeComMessageLength - 50) of
              None \<Rightarrow> ([], Panic)
            | Some truncatedResponse \<Rightarrow>
                (let difyResponse = slicerunetostring truncatedResponse @ truncationNote
                 in ([EvSendText difyResponse], of_error (SendTextMessage w difyResponse))))
      else ([EvSendText difyResponse], of_error (SendTextMessage w difyResponse)))"

text \<open>\<open>v, ok := m[key].(string); ok && v != ""\<close>.\<close>

definition nonempty_string_field :: "gomap \<Rightarrow> string \<Rightarrow> string option" where
  "nonempty_string_field m key =
     (case string_field m key of Some v \<Rightarrow> if v \<noteq> [] then Some v else None | None \<Rightarrow> None)"

definition postprocessDifyResponse ::
  "DifyConfig \<Rightarrow> world \<Rightarrow> string \<Rightarrow> event list \<times> unit res" where
  "postprocessDifyResponse cfg w difyResponse =
     (case jsonUnmarshalMap w difyResponse of
        Inl _ \<Rightarrow> postprocess_text w difyResponse
      | Inr jsonResponse \<Rightarrow>
          (case nonempty_string_field jsonResponse ''image_url'' of
             Some imageUrl \<Rightarrow> postprocess_image w imageUrl
           | None \<Rightarrow>
               (case nonempty_string_field jsonResponse ''file_url'' of
                  Some fileUrl \<Rightarrow> postprocess_file w fileUrl
                | None \<Rightarrow>
                    (case nonempty_string_field jsonResponse ''markdown'' of
                       Some markdownContent \<Rightarrow>
                         ([EvSendMarkdown markdownContent],
                          of_error (SendMarkdownMessage w markdownContent))
                     | None \<Rightarrow>
                         if jsonResponse ''data'' \<noteq> None \<and> BotType cfg = ''workflow''
                         then ([EvSendText difyResponse],
                               of_error (SendTextMessage w difyResponse))
                         else postprocess_text w difyResponse))))"

section \<open>The orchestrator (MessageConverter.ConvertAndSend)\<close>

text \<open>The reply of the pre-filter to an \<open>/image\<close> command, as its bytes.\<close>

definition imageCommandReply :: string where
  "imageCommandReply =
     [CHR 0xE6, CHR 0x8A, CHR 0xB1, CHR 0xE6, CHR 0xAD, CHR 0x89, CHR 0xEF, CHR 0xBC,
      CHR 0x8C, CHR 0xE5, CHR 0x9B, CHR 0xBE, CHR 0xE7, CHR 0x89, CHR 0x87, CHR 0xE7,
      CHR 0x94, CHR 0x9F, CHR 0xE6, CHR 0x88, CHR 0x90, CHR 0xE5, CHR 0x8A, CHR 0x9F,
      CHR 0xE8, CHR 0x83, CHR 0xBD, CHR 0xE6, CHR 0x9A, CHR 0x82, CHR 0xE6, CHR 0x9C,
      CHR 0xAA, CHR 0xE5, CHR 0xAE, CHR 0x9E, CHR 0xE7, CHR 0x8E, CHR 0xB0, CHR 0xE3,
      CHR 0x80, CHR 0x82]"

text \<open>\<open>preprocessMessage\<close> returns the message, whether it was handled, and an error
  (always nil).\<close>

definition preprocessMessage :: "string \<Rightarrow> string \<times> bool \<times> err option" where
  "preprocessMessage message =
     (if stringsHasPrefix message ''/image '' then (imageCommandReply, True, None)
      else (message, False, None))"

definition getFileTypeFromPath :: "world \<Rightarrow> string \<Rightarrow> string" where
  "getFileTypeFromPath w filePath =
     (let ext = stringsToLower w (filepathExt filePath)
      in if ext \<in> set [''.jpg'', ''.jpeg'', ''.png'', ''.gif'', ''.bmp'', ''.webp''] then ''image''
         else if ext \<in> set [''.mp3'', ''.wav'', ''.aac'', ''.flac''] then ''audio''
         else if ext \<in> set [''.mp4'', ''.avi'', ''.mov'', ''.wmv'', ''.flv''] then ''video''
         else if ext \<in> set [''.txt'', ''.md'', ''.csv'', ''.json'', ''.xml''] then ''text''
         else ''other'')"

text \<open>
  The \<open>switch\<close> on the configured bot type, up to the values of \<open>difyResponse\<close> and
  \<open>difyErr\<close> it leaves: \<open>Ok difyResponse\<close> when \<open>difyErr\<close> is nil, \<open>Fail difyErr\<close>
  otherwise. \<open>jsonMarshalIndent\<close> gives the text of its error on the left.
\<close>

definition callDify ::
  "DifyConfig \<Rightarrow> world \<Rightarrow> string \<Rightarrow> string \<Rightarrow> string \<Rightarrow> string \<Rightarrow> event list \<times> string res" where
  "callDify cfg w message user conversationID filePath =
     (if BotType cfg = ''chat'' then
        (case (if filePath \<noteq> [] then
                 (case UploadFile cfg w filePath user of
                    (trace, Fail uploadErr) \<Rightarrow> (trace, Fail (UploadToDifyFailed uploadErr))
                  | (trace, Panic) \<Rightarrow> (trace, Panic)
                  | (trace, Ok uploadResp) \<Rightarrow>
                      (trace,
                       Ok (case string_field uploadResp ''id'' of
                             Some fileID \<Rightarrow>
                               [[''type'' \<mapsto> JString (getFileTypeFromPath w filePath),
                                 ''transfer_method'' \<mapsto> JString ''local_file'',
                                 ''upload_file_id'' \<mapsto> JString fileID]]
                           | None \<Rightarrow> [])))
               else ([], Ok [])) of
           (trace, Fail e) \<Rightarrow> (trace, Fail e)
         | (trace, Panic) \<Rightarrow> (trace, Panic)
         | (trace, Ok files) \<Rightarrow>
             (let req = \<lparr>Inputs = Some Map.empty, User = user,
                         ResponseMode = responseModeBlocking, Files = files,
                         Query = message, ConversationID = conversationID\<rparr>
              in case CallDifyChatAPI cfg w req of
                   (trace', Fail e) \<Rightarrow> (trace @ trace', Fail (ChatCallFailed e))
                 | (trace', Panic) \<Rightarrow> (trace @ trace', Panic)
                 | (trace', Ok resp) \<Rightarrow> (trace @ trace', Ok (Answer resp))))
      else if BotType cfg = ''completion'' then
        (let req = \<lparr>Inputs = Some Map.empty, User = user,
                    ResponseMode = responseModeBlocking, Files = [], Prompt = message\<rparr>
         in case CallDifyCompletionAPI cfg w req of
              (trace, Fail e) \<Rightarrow> (trace, Fail (CompletionCallFailed e))
            | (trace, Panic) \<Rightarrow> (trace, Panic)
            | (trace, Ok resp) \<Rightarrow> (trace, Ok (Text resp)))
      else if BotType cfg = ''workflow'' then
        (let req = \<lparr>Inputs = Some [''query'' \<mapsto> JString message], User = user,
                    ResponseMode = responseModeBlocking, Files = [],
                    WorkflowID = DifyConfig.WorkflowID cfg\<rparr>
         in case CallDifyWorkflowAPI cfg w req of
              (trace, Fail e) \<Rightarrow> (trace, Fail (WorkflowCallFailed e))
            | (trace, Panic) \<Rightarrow> (trace, Panic)
            | (trace, Ok resp) \<Rightarrow>
                (case jsonMarshalIndent w (Data resp) of
                   Inl marshalErr \<Rightarrow>
                     (trace, Ok (''Error: failed to marshal workflow response: '' @ marshalErr))
                 | Inr jsonBytes \<Rightarrow> (trace, Ok jsonBytes)))
      else ([], Fail (UnsupportedBotType (BotType cfg))))"

text \<open>
  The part of \<open>ConvertAndSend\<close> from the \<open>switch\<close> to its end: the backend call for the
  effective message, then the formatter on its answer, each error wrapped with its stage.
\<close>

definition callDifyAndSend ::
  "DifyConfig \<Rightarrow> world \<Rightarrow> string \<Rightarrow> string \<Rightarrow> string \<Rightarrow> string \<Rightarrow> event list \<times> unit res" where
  "callDifyAndSend cfg w message user conversationID filePath =
     (case callDify cfg w message user conversationID filePath of
        (trace, Fail difyErr) \<Rightarrow> (trace, Fail (CallDifyFailed difyErr))
      | (trace, Panic) \<Rightarrow> (trace, Panic)
      | (trace, Ok difyResponse) \<Rightarrow>
          (case postprocessDifyResponse cfg w difyResponse of
             (trace', Fail e) \<Rightarrow> (trace @ trace', Fail (PostprocessFailed e))
           | (trace', Panic) \<Rightarrow> (trace @ trace', Panic)
           | (trace', Ok u) \<Rightarrow> (trace @ trace', Ok u)))"

definition ConvertAndSend ::
  "DifyConfig \<Rightarrow> world \<Rightarrow> string \<Rightarrow> string \<Rightarrow> string \<Rightarrow> string \<Rightarrow> event list \<times> unit res" where
  "ConvertAndSend cfg w message user conversationID filePath =
     (case preprocessMessage message of
        (processedMessage, handled, Some e) \<Rightarrow> ([], Fail (PreprocessingFailed e))
      | (processedMessage, handled, None) \<Rightarrow>
          if handled then
            (if processedMessage \<noteq> []
             then ([EvSendText processedMessage], of_error (SendTextMessage w processedMessage))
             else ([], Ok ()))
          else
            (let message = processedMessage;
                 message = (if message = [] \<and> DefaultPrompt cfg \<noteq> [] then DefaultPrompt cfg
                            else message)
             in if message = [] \<and> filePath = [] then ([], Fail EmptyMessageAndFile)
                else callDifyAndSend cfg w message user conversationID filePath))"

section \<open>Reading a trace\<close>

text \<open>The sends on the outbound channel, and the calls that go over the network (requests
  to the backend, the download GET and the sends).\<close>

fun is_send :: "event \<Rightarrow> bool" where
  "is_send (EvSendText m) = True"
| "is_send (EvSendMarkdown m) = True"
| "is_send (EvSendImage p) = True"
| "is_send (EvSendFile p) = True"
| "is_send _ = False"

definition sends :: "event list \<Rightarrow> event list" where
  "sends trace = filter is_send trace"

fun is_attempt :: "event \<Rightarrow> bool" where
  "is_attempt (EvHttpDo req) = True"
| "is_attempt _ = False"

definition attempts :: "event list \<Rightarrow> nat" where
  "attempts trace = length (filter is_attempt trace)"

section \<open>Example configurations and worlds\<close>

text \<open>
  A configuration, and a world in which the network is down, no payload parses as JSON,
  the file system and the outbound channel work, and the decoders of the three response
  types read the whole body as the answer, the text, or as no data. The worlds of the
  examples below are this one with single fields replaced.
\<close>

definition example_cfg :: DifyConfig where
  "example_cfg = \<lparr>APIKey = ''app-key'', BaseURL = ''https://api.dify.ai'', BotType = ''chat'',
                   WorkflowID = [], DefaultPrompt = []\<rparr>"

definition offline_world :: world where
  "offline_world =
     \<lparr>httpNewRequest = (\<lambda>method url. None),
      httpClientDo = (\<lambda>req i. Inl (Opaque ''connection refused'')),
      httpClientGet = (\<lambda>url. Inl (Opaque ''connection refused'')),
      osCreate = (\<lambda>path. None),
      ioCopyBody = (\<lambda>url path. None),
      osCreateTemp = (\<lambda>pattern. Inr (''/tmp/'' @ pattern)),
      osOpen = (\<lambda>path. None),
      multipartForm = (\<lambda>filePath user. FormBody filePath ''multipart/form-data''),
      jsonMarshalChat = (\<lambda>request. Inr (Query request)),
      jsonMarshalCompletion = (\<lambda>request. Inr (Prompt request)),
      jsonMarshalWorkflow = (\<lambda>request. Inr (DifyWorkflowRequest.WorkflowID request)),
      jsonMarshalIndent = (\<lambda>data. Inr ''{}''),
      jsonUnmarshalMap = (\<lambda>body. Inl (Opaque ''invalid character'')),
      jsonUnmarshalError = (\<lambda>body. Inl (Opaque ''invalid character'')),
      jsonUnmarshalChat = (\<lambda>body. Inr \<lparr>Answer = body\<rparr>),
      jsonUnmarshalCompletion = (\<lambda>body. Inr \<lparr>Text = body\<rparr>),
      jsonUnmarshalWorkflow = (\<lambda>body. Inr \<lparr>Data = None\<rparr>),
      SendTextMessage = (\<lambda>message. None),
      SendMarkdownMessage = (\<lambda>content. None),
      SendImageMessage = (\<lambda>path. None),
      SendFileMessage = (\<lambda>path. None),
      runeSliceCap = (\<lambda>n. n),
      stringsToLower = (\<lambda>s. s)\<rparr>"

text \<open>The backend answers every request with the given status and body.\<close>

definition answering_world :: "int \<Rightarrow> string \<Rightarrow> world" where
  "answering_world status body =
     offline_world\<lparr>httpClientDo := (\<lambda>req i. Inr \<lparr>StatusCode = status, ReadAll = Inr body\<rparr>)\<rparr>"

text \<open>The first \<open>n\<close> calls of \<open>Do\<close> fail at the transport level; later ones are answered
  with the given status and body.\<close>

definition flaky_world :: "nat \<Rightarrow> int \<Rightarrow> string \<Rightarrow> world" where
  "flaky_world n status body =
     offline_world\<lparr>httpClientDo :=
       (\<lambda>req i. if i < n then Inl (Opaque ''timeout'')
                 else Inr \<lparr>StatusCode = status, ReadAll = Inr body\<rparr>)\<rparr>"

text \<open>Every payload parses as the given JSON object.\<close>

definition parsing_world :: "gomap \<Rightarrow> world" where
  "parsing_world obj = offline_world\<lparr>jsonUnmarshalMap := (\<lambda>body. Inr obj)\<rparr>"

text \<open>The backend's answer parses as the given object and the download GET is served.\<close>

definition serving_world :: "gomap \<Rightarrow> world" where
  "serving_world obj =
     (parsing_world obj)\<lparr>httpClientGet :=
       (\<lambda>url. Inr \<lparr>StatusCode = 200, ReadAll = Inr ''content''\<rparr>)\<rparr>"

text \<open>The object of the payload \<open>{"image_url":"http://x/y.png"}\<close>.\<close>

definition image_object :: gomap where
  "image_object = [''image_url'' \<mapsto> JString ''http://x/y.png'']"

text \<open>The request of a chat call with body \<open>hello\<close> under \<open>example_cfg\<close>.\<close>

definition example_request :: http_request where
  "example_request =
     difyRequest example_cfg ''POST'' (BaseURL example_cfg @ difyChatMessagesPath) ''hello''
       ''application/json''"

text \<open>Requests as a caller hands them to the three backend operations.\<close>

definition example_chat :: DifyChatRequest where
  "example_chat = \<lparr>Inputs = None, User = ''u1'', ResponseMode = [], Files = [],
                    Query = ''hello'', ConversationID = []\<rparr>"

definition example_completion :: DifyCompletionRequest where
  "example_completion = \<lparr>Inputs = None, User = ''u1'', ResponseMode = [], Files = [],
                          Prompt = ''hello''\<rparr>"

definition example_workflow :: DifyWorkflowRequest where
  "example_workflow = \<lparr>Inputs = None, User = ''u1'', ResponseMode = [], Files = [],
                        WorkflowID = ''wf-1''\<rparr>"

section \<open>Properties of the conversation store\<close>

lemma store_step_keeps_absent:
  "\<not> assigns u c \<Longrightarrow> s u = None \<Longrightarrow> store_step s c u = None"
  by (cases c)
     (auto simp: SaveConversationID_def NewConversationID_def DeleteConversationID_def
           split: option.splits)

lemma store_run_keeps_absent:
  "\<forall>c \<in> set calls. \<not> assigns u c \<Longrightarrow> s u = None \<Longrightarrow> store_run s calls u = None"
  unfolding store_run_def
proof (induction calls arbitrary: s)
  case Nil
  then show ?case by simp
next
  case (Cons c calls)
  have "store_step s c u = None"
    using Cons.prems by (simp add: store_step_keeps_absent)
  with Cons show ?case by simp
qed

text \<open>
  C9. After \<open>SaveConversationID(u, id)\<close>, \<open>GetConversationID(u)\<close> returns exactly that id
  with found = true; saving \<open>id2\<close> after \<open>id1\<close> for the same user makes the get return
  \<open>id2\<close> (last writer wins); and saving the same id a second time leaves the stored
  mapping unchanged, so later gets keep returning that id.
\<close>

theorem C9_save_get_overwrite_idempotent:
  "GetConversationID (SaveConversationID s u c) u = (c, True)
   \<and> GetConversationID (SaveConversationID (SaveConversationID s u id1) u id2) u = (id2, True)
   \<and> SaveConversationID (SaveConversationID s u c) u c = SaveConversationID s u c
   \<and> GetConversationID (SaveConversationID (SaveConversationID s u c) u c) w
       = GetConversationID (SaveConversationID s u c) w"
  by (simp add: GetConversationID_def SaveConversationID_def)

text \<open>
  C10. Every store operation touches only its own user's entry: for distinct users
  \<open>u\<close> and \<open>v\<close>, a save, a generate or a delete for \<open>u\<close> leaves the entry of \<open>v\<close> (and
  so what \<open>GetConversationID(v)\<close> returns) unchanged. After \<open>DeleteConversationID(u)\<close>,
  \<open>GetConversationID(u)\<close> returns the empty id with found = false, and keeps doing so
  through any later calls that are neither a save nor a generate for \<open>u\<close>.
\<close>

theorem C10_store_frame_and_delete:
  assumes "u \<noteq> v" and "\<forall>c \<in> set calls. \<not> assigns u c"
  shows "SaveConversationID s u c v = s v
    \<and> snd (NewConversationID s g u) v = s v
    \<and> DeleteConversationID s u v = s v
    \<and> GetConversationID (SaveConversationID s u c) v = GetConversationID s v
    \<and> GetConversationID (snd (NewConversationID s g u)) v = GetConversationID s v
    \<and> GetConversationID (DeleteConversationID s u) v = GetConversationID s v
    \<and> GetConversationID (DeleteConversationID s u) u = ([], False)
    \<and> GetConversationID (store_run (DeleteConversationID s u) calls) u = ([], False)"
proof -
  have frame: "SaveConversationID s u c v = s v" "snd (NewConversationID s g u) v = s v"
      "DeleteConversationID s u v = s v"
    using assms(1)
    by (simp_all add: SaveConversationID_def NewConversationID_def DeleteConversationID_def
          split: option.splits)
  have gets: "GetConversationID (SaveConversationID s u c) v = GetConversationID s v"
      "GetConversationID (snd (NewConversationID s g u)) v = GetConversationID s v"
      "GetConversationID (DeleteConversationID s u) v = GetConversationID s v"
    using frame by (simp_all add: GetConversationID_def)
  have "DeleteConversationID s u u = None"
    by (simp add: DeleteConversationID_def)
  moreover from this have "store_run (DeleteConversationID s u) calls u = None"
    using assms(2) by (rule store_run_keeps_absent[rotated])
  ultimately have gone: "GetConversationID (DeleteConversationID s u) u = ([], False)"
      "GetConversationID (store_run (DeleteConversationID s u) calls) u = ([], False)"
    by (simp_all add: GetConversationID_def)
  from frame gets gone show ?thesis by (intro conjI)
qed

theorem C10_store_frame_and_delete_witness:
  "''alice'' \<noteq> ''bob''
   \<and> list_all (\<lambda>c. \<not> assigns ''alice'' c)
         [CallSave ''bob'' ''c2'', CallGet ''alice'', CallDelete ''alice'']
   \<and> GetConversationID (SaveConversationID [''bob'' \<mapsto> ''c0''] ''alice'' ''c1'') ''bob''
       = (''c0'', True)
   \<and> GetConversationID (store_run (DeleteConversationID [''alice'' \<mapsto> ''c1''] ''alice'')
         [CallSave ''bob'' ''c2'', CallGet ''alice'', CallDelete ''alice'']) ''alice''
       = ([], False)"
proof -
  have h1: "''alice'' \<noteq> ''bob''" by simp
  have h2: "\<forall>c \<in> set [CallSave ''bob'' ''c2'', CallGet ''alice'', CallDelete ''alice''].
              \<not> assigns ''alice'' c" by simp
  from C10_store_frame_and_delete [OF h1 h2, of "[''bob'' \<mapsto> ''c0'']" "''c1''"]
  have "GetConversationID (SaveConversationID [''bob'' \<mapsto> ''c0''] ''alice'' ''c1'') ''bob''
          = GetConversationID [''bob'' \<mapsto> ''c0''] ''bob''" by blast
  moreover have "GetConversationID [''bob'' \<mapsto> ''c0''] ''bob'' = (''c0'', True)"
    by (simp add: GetConversationID_def)
  moreover from C10_store_frame_and_delete [OF h1 h2, of "[''alice'' \<mapsto> ''c1'']"]
  have "GetConversationID (store_run (DeleteConversationID [''alice'' \<mapsto> ''c1''] ''alice'')
         [CallSave ''bob'' ''c2'', CallGet ''alice'', CallDelete ''alice'']) ''alice''
       = ([], False)" by blast
  ultimately show ?thesis using h1 h2 by simp
qed

section \<open>Properties of the retrying HTTP primitive\<close>

declare doDifyRequest_loop.simps [simp del]

lemma loop_response:
  "i < maxRetries \<Longrightarrow> httpClientDo w req i = Inr r \<Longrightarrow>
   doDifyRequest_loop w req i st = ([EvHttpDo req], (Some r, None))"
  by (subst doDifyRequest_loop.simps) simp

lemma loop_failure:
  "i < maxRetries \<Longrightarrow> httpClientDo w req i = Inl e \<Longrightarrow>
   doDifyRequest_loop w req i st =
     (EvHttpDo req # (if i < maxRetries - 1 then [EvSleep (i + 1)] else [])
        @ fst (doDifyRequest_loop w req (i + 1) (None, Some e)),
      snd (doDifyRequest_loop w req (i + 1) (None, Some e)))"
  by (subst doDifyRequest_loop.simps) (simp add: case_prod_beta)

lemma loop_exit: "\<not> i < maxRetries \<Longrightarrow> doDifyRequest_loop w req i st = ([], st)"
  by (subst doDifyRequest_loop.simps) simp

lemma loop_attempts: "attempts (fst (doDifyRequest_loop w req i st)) \<le> maxRetries - i"
proof (induction w req i st rule: doDifyRequest_loop.induct)
  case (1 w req i st)
  show ?case
  proof (cases "i < maxRetries")
    case False
    then show ?thesis by (simp add: loop_exit attempts_def)
  next
    case True
    show ?thesis
    proof (cases "httpClientDo w req i")
      case (Inr r)
      with True show ?thesis by (simp add: loop_response attempts_def)
    next
      case (Inl e)
      from "1.IH"[OF True Inl]
      have "attempts (fst (doDifyRequest_loop w req (i + 1) (None, Some e))) \<le> maxRetries - (i + 1)" .
      with True Inl show ?thesis by (simp add: loop_failure attempts_def)
    qed
  qed
qed

lemma loop_failure_at:
  "i < maxRetries \<Longrightarrow> httpClientDo w req i = Inl e \<Longrightarrow> j = i + 1 \<Longrightarrow>
   doDifyRequest_loop w req i st =
     (EvHttpDo req # (if j < maxRetries then [EvSleep j] else [])
        @ fst (doDifyRequest_loop w req j (None, Some e)),
      snd (doDifyRequest_loop w req j (None, Some e)))"
  by (simp add: loop_failure less_diff_conv)

lemma loop_three:
  "doDifyRequest_loop w req 0 (None, None) =
     (case httpClientDo w req 0 of
        Inr r \<Rightarrow> ([EvHttpDo req], (Some r, None))
      | Inl e0 \<Rightarrow>
          (case httpClientDo w req 1 of
             Inr r \<Rightarrow> ([EvHttpDo req, EvSleep 1, EvHttpDo req], (Some r, None))
           | Inl e1 \<Rightarrow>
               (case httpClientDo w req 2 of
                  Inr r \<Rightarrow>
                    ([EvHttpDo req, EvSleep 1, EvHttpDo req, EvSleep 2, EvHttpDo req],
                     (Some r, None))
                | Inl e2 \<Rightarrow>
                    ([EvHttpDo req, EvSleep 1, EvHttpDo req, EvSleep 2, EvHttpDo req],
                     (None, Some e2)))))"
proof -
  have lt: "(0::nat) < maxRetries" "(1::nat) < maxRetries" "(2::nat) < maxRetries"
    and ge: "\<not> (3::nat) < maxRetries"
    by (simp_all add: maxRetries_def)
  have done3: "doDifyRequest_loop w req 3 st = ([], st)" for st
    using ge by (rule loop_exit)
  have at2: "doDifyRequest_loop w req 2 st =
      (case httpClientDo w req 2 of
         Inr r \<Rightarrow> ([EvHttpDo req], (Some r, None))
       | Inl e2 \<Rightarrow> ([EvHttpDo req], (None, Some e2)))" for st
    using loop_response[OF lt(3)] loop_failure_at[OF lt(3), where j = 3] ge
    by (simp add: done3 split: sum.splits)
  have at1: "doDifyRequest_loop w req (Suc 0) st =
      (case httpClientDo w req (Suc 0) of
         Inr r \<Rightarrow> ([EvHttpDo req], (Some r, None))
       | Inl e1 \<Rightarrow>
           (EvHttpDo req # EvSleep 2 # fst (doDifyRequest_loop w req 2 (None, Some e1)),
            snd (doDifyRequest_loop w req 2 (None, Some e1))))" for st
    using loop_response[OF lt(2)] loop_failure_at[OF lt(2), where j = 2] lt(3)
    by (simp split: sum.splits)
  have at0: "doDifyRequest_loop w req 0 st =
      (case httpClientDo w req 0 of
         Inr r \<Rightarrow> ([EvHttpDo req], (Some r, None))
       | Inl e0 \<Rightarrow>
           (EvHttpDo req # EvSleep (Suc 0) # fst (doDifyRequest_loop w req (Suc 0) (None, Some e0)),
            snd (doDifyRequest_loop w req (Suc 0) (None, Some e0))))" for st
    using loop_response[OF lt(1)] loop_failure_at[OF lt(1), where j = 1] lt(2)
    by (simp split: sum.splits)
  have at0: "doDifyRequest_loop w req 0 st =
      (case httpClientDo w req 0 of
         Inr r \<Rightarrow> ([EvHttpDo req], (Some r, None))
       | Inl e0 \<Rightarrow>
           (EvHttpDo req # EvSleep (Suc 0) # fst (doDifyRequest_loop w req (Suc 0) (None, Some e0)),
            snd (doDifyRequest_loop w req (Suc 0) (None, Some e0))))" for st
    using loop_response[OF lt(1)] loop_failure_at[OF lt(1), where j = 1] lt(2)
    by (simp split: sum.splits)
  have at0: "doDifyRequest_loop w req 0 st =
      (case httpClientDo w req 0 of
         Inr r \<Rightarrow> ([EvHttpDo req], (Some r, None))
       | Inl e0 \<Rightarrow>
           (EvHttpDo req # EvSleep 1 # fst (doDifyRequest_loop w req 1 (None, Some e0)),
            snd (doDifyRequest_loop w req 1 (None, Some e0))))" for st
    using loop_response[OF lt(1)] loop_failure_at[OF lt(1), where j = 1] lt(2)
    by (simp split: sum.splits)
  show ?thesis
    by (simp add: at0 at1 at2 split: sum.splits)
qed


lemma doDifyRequest_after_loop:
  assumes "httpNewRequest w method (BaseURL cfg @ path) = None"
    and "doDifyRequest_loop w (difyRequest cfg method (BaseURL cfg @ path) body contentType) 0
           (None, None) = (trace, resp, err)"
  shows "doDifyRequest cfg w method path body contentType logPrefix responseStruct =
     (case err of
        Some e \<Rightarrow> (trace, Fail (RetriesExhausted logPrefix maxRetries e))
      | None \<Rightarrow>
          (case resp of
             None \<Rightarrow> (trace, Panic)
           | Some resp \<Rightarrow>
               (case ReadAll resp of
                  Inl e \<Rightarrow> (trace, Fail (ReadBodyFailed logPrefix e))
                | Inr respBody \<Rightarrow>
                    if StatusCode resp \<noteq> 200 then
                      (case jsonUnmarshalError w respBody of
                         Inr errorResponse \<Rightarrow>
                           (trace, Fail (DifyAPIError logPrefix (Code errorResponse)
                                           (Message errorResponse)))
                       | Inl _ \<Rightarrow>
                           (trace, Fail (ErrorStatus logPrefix (StatusCode resp) respBody)))
                    else
                      (case responseStruct of
                         None \<Rightarrow> (trace, Ok None)
                       | Some decode \<Rightarrow>
                           (case decode respBody of
                              Inl e \<Rightarrow> (trace, Fail (ParseSuccessFailed logPrefix e))
                            | Inr v \<Rightarrow> (trace, Ok (Some v)))))))"
  using assms by (simp add: doDifyRequest_def)

lemma doDifyRequest_trace:
  assumes "httpNewRequest w method (BaseURL cfg @ path) = None"
  shows "fst (doDifyRequest cfg w method path body contentType logPrefix responseStruct) =
         fst (doDifyRequest_loop w (difyRequest cfg method (BaseURL cfg @ path) body contentType) 0
                (None, None))"
proof -
  obtain trace resp err where
    l: "doDifyRequest_loop w (difyRequest cfg method (BaseURL cfg @ path) body contentType) 0
          (None, None) = (trace, resp, err)"
    by (metis prod_cases3)
  show ?thesis
    unfolding doDifyRequest_after_loop[OF assms l] l
    by (simp split: option.splits sum.splits)
qed

text \<open>
  C5. A call of \<open>doDifyRequest\<close> makes at most 3 attempts. When the request could
  be built: a transport failure on the first attempt is followed by a sleep of 1 second, one on the
  second by a sleep of 2 seconds, and then by the next attempt. An attempt that yields a
  response, whatever its status code, is the last one. After three transport failures
  the call fails with the last transport error wrapped (and there is no sleep after the
  third).
\<close>

theorem C5_bounded_retry:
  fixes cfg w meth path body contentType logPrefix responseStruct req D
  defines "req \<equiv> difyRequest cfg meth (BaseURL cfg @ path) body contentType"
    and "D \<equiv> doDifyRequest cfg w meth path body contentType logPrefix responseStruct"
  shows "attempts (fst D) \<le> 3
    \<and> (httpNewRequest w meth (BaseURL cfg @ path) = None \<longrightarrow>
         (\<forall>r. httpClientDo w req 0 = Inr r \<longrightarrow> fst D = [EvHttpDo req])
       \<and> (\<forall>e0 r. httpClientDo w req 0 = Inl e0 \<and> httpClientDo w req 1 = Inr r \<longrightarrow>
             fst D = [EvHttpDo req, EvSleep 1, EvHttpDo req])
       \<and> (\<forall>e0 e1 r. httpClientDo w req 0 = Inl e0 \<and> httpClientDo w req 1 = Inl e1
               \<and> httpClientDo w req 2 = Inr r \<longrightarrow>
             fst D = [EvHttpDo req, EvSleep 1, EvHttpDo req, EvSleep 2, EvHttpDo req])
       \<and> (\<forall>e0 e1 e2. httpClientDo w req 0 = Inl e0 \<and> httpClientDo w req 1 = Inl e1
               \<and> httpClientDo w req 2 = Inl e2 \<longrightarrow>
             D = ([EvHttpDo req, EvSleep 1, EvHttpDo req, EvSleep 2, EvHttpDo req],
                  Fail (RetriesExhausted logPrefix 3 e2))))"
proof (cases "httpNewRequest w meth (BaseURL cfg @ path)")
  case (Some e)
  then have "D = ([], Fail (CreateRequestFailed logPrefix e))"
    by (simp add: D_def doDifyRequest_def)
  with Some show ?thesis by (simp add: attempts_def)
next
  case new: None
  have tr: "fst D = fst (doDifyRequest_loop w req 0 (None, None))"
    unfolding D_def req_def by (rule doDifyRequest_trace[OF new])
  have "attempts (fst D) \<le> maxRetries - 0"
    unfolding tr by (rule loop_attempts)
  then have bound: "attempts (fst D) \<le> 3"
    by (simp add: maxRetries_def)
  have exhausted: "D = ([EvHttpDo req, EvSleep 1, EvHttpDo req, EvSleep 2, EvHttpDo req],
               Fail (RetriesExhausted logPrefix 3 e2))"
    if "httpClientDo w req 0 = Inl e0" "httpClientDo w req 1 = Inl e1"
       "httpClientDo w req 2 = Inl e2" for e0 e1 e2
  proof -
    have "doDifyRequest_loop w req 0 (None, None) =
        ([EvHttpDo req, EvSleep 1, EvHttpDo req, EvSleep 2, EvHttpDo req], None, Some e2)"
      using that by (simp add: loop_three)
    from doDifyRequest_after_loop[OF new this[unfolded req_def]]
    show ?thesis unfolding D_def req_def by (simp add: maxRetries_def)
  qed
  show ?thesis
    using bound exhausted by (auto simp: tr loop_three)
qed

theorem C5_bounded_retry_witness:
  "fst (doDifyRequest example_cfg (flaky_world 1 503 ''busy'') ''POST'' difyChatMessagesPath
          ''hello'' ''application/json'' ''Chat API''
          (Some (jsonUnmarshalChat (flaky_world 1 503 ''busy''))))
     = [EvHttpDo example_request, EvSleep 1, EvHttpDo example_request]
   \<and> doDifyRequest example_cfg offline_world ''POST'' difyChatMessagesPath
          ''hello'' ''application/json'' ''Chat API'' (Some (jsonUnmarshalChat offline_world))
     = ([EvHttpDo example_request, EvSleep 1, EvHttpDo example_request, EvSleep 2,
         EvHttpDo example_request],
        Fail (RetriesExhausted ''Chat API'' 3 (Opaque ''connection refused'')))"
proof -
  have new1: "httpNewRequest (flaky_world 1 503 ''busy'') ''POST''
                (BaseURL example_cfg @ difyChatMessagesPath) = None"
    by (simp add: flaky_world_def offline_world_def)
  have new2: "httpNewRequest offline_world ''POST''
                (BaseURL example_cfg @ difyChatMessagesPath) = None"
    by (simp add: offline_world_def)
  have d0: "httpClientDo (flaky_world 1 503 ''busy'') example_request 0 = Inl (Opaque ''timeout'')"
    and d1: "httpClientDo (flaky_world 1 503 ''busy'') example_request 1
               = Inr \<lparr>StatusCode = 503, ReadAll = Inr ''busy''\<rparr>"
    by (simp_all add: flaky_world_def offline_world_def)
  have off: "httpClientDo offline_world example_request i = Inl (Opaque ''connection refused'')" for i
    by (simp add: offline_world_def)
  from C5_bounded_retry[where w = "flaky_world 1 503 ''busy''" and meth = "''POST''"
      and cfg = example_cfg and path = difyChatMessagesPath and body = "''hello''"
      and contentType = "''application/json''" and logPrefix = "''Chat API''"
      and responseStruct = "Some (jsonUnmarshalChat (flaky_world 1 503 ''busy''))"] new1 d0 d1
  have a: "fst (doDifyRequest example_cfg (flaky_world 1 503 ''busy'') ''POST'' difyChatMessagesPath
          ''hello'' ''application/json'' ''Chat API''
          (Some (jsonUnmarshalChat (flaky_world 1 503 ''busy''))))
     = [EvHttpDo example_request, EvSleep 1, EvHttpDo example_request]"
    unfolding example_request_def by blast
  from C5_bounded_retry[where w = offline_world and meth = "''POST''"
      and cfg = example_cfg and path = difyChatMessagesPath and body = "''hello''"
      and contentType = "''application/json''" and logPrefix = "''Chat API''"
      and responseStruct = "Some (jsonUnmarshalChat offline_world)"] new2 off
  have b: "doDifyRequest example_cfg offline_world ''POST'' difyChatMessagesPath
          ''hello'' ''application/json'' ''Chat API'' (Some (jsonUnmarshalChat offline_world))
     = ([EvHttpDo example_request, EvSleep 1, EvHttpDo example_request, EvSleep 2,
         EvHttpDo example_request],
        Fail (RetriesExhausted ''Chat API'' 3 (Opaque ''connection refused'')))"
    unfolding example_request_def by blast
  from a b show ?thesis by (rule conjI)
qed

text \<open>
  C2, as the code has it: the only status that counts as success is 200. For a call
  that completes the round trip (one of the three attempts yields a response, after
  transport failures only, and the body is read): on status 200 the call succeeds, with
  the body decoded into the destination when one was supplied, a decode failure being
  an error of its own kind; on any other status the call fails with the structured
  error decoded from the body (its code and message) or, when the body does not decode,
  with the raw status and body text. In both cases no further attempt follows the
  response.
\<close>

theorem C2_status_handling:
  fixes cfg w meth path body contentType logPrefix responseStruct req D
  defines "req \<equiv> difyRequest cfg meth (BaseURL cfg @ path) body contentType"
    and "D \<equiv> doDifyRequest cfg w meth path body contentType logPrefix responseStruct"
  assumes new: "httpNewRequest w meth (BaseURL cfg @ path) = None"
    and i: "i < 3"
    and before: "\<forall>j<i. \<exists>e. httpClientDo w req j = Inl e"
    and resp: "httpClientDo w req i = Inr resp"
    and body: "ReadAll resp = Inr respBody"
  shows "(StatusCode resp = 200 \<longrightarrow>
            (case responseStruct of
               None \<Rightarrow> snd D = Ok None
             | Some decode \<Rightarrow>
                 (case decode respBody of
                    Inr v \<Rightarrow> snd D = Ok (Some v)
                  | Inl e \<Rightarrow> snd D = Fail (ParseSuccessFailed logPrefix e))))
    \<and> (StatusCode resp \<noteq> 200 \<longrightarrow>
            (case jsonUnmarshalError w respBody of
               Inr errorResponse \<Rightarrow>
                 snd D = Fail (DifyAPIError logPrefix (Code errorResponse) (Message errorResponse))
             | Inl e \<Rightarrow> snd D = Fail (ErrorStatus logPrefix (StatusCode resp) respBody)))
    \<and> attempts (fst D) = i + 1"
proof -
  have "\<exists>trace. doDifyRequest_loop w req 0 (None, None) = (trace, Some resp, None)
          \<and> attempts trace = i + 1"
  proof -
    consider "i = 0" | "i = 1" | "i = 2" using i by linarith
    then show ?thesis
    proof cases
      case 1
      with resp show ?thesis by (simp add: loop_three attempts_def)
    next
      case 2
      with before obtain e0 where "httpClientDo w req 0 = Inl e0" by auto
      with 2 resp show ?thesis by (simp add: loop_three attempts_def)
    next
      case 3
      with before obtain e0 e1 where "httpClientDo w req 0 = Inl e0" "httpClientDo w req 1 = Inl e1"
        by (metis One_nat_def Suc_1 lessI zero_less_Suc)
      with 3 resp show ?thesis by (simp add: loop_three attempts_def)
    qed
  qed
  then obtain trace where l: "doDifyRequest_loop w req 0 (None, None) = (trace, Some resp, None)"
    and a: "attempts trace = i + 1" by blast
  note DD = doDifyRequest_after_loop[OF new l[unfolded req_def], of logPrefix responseStruct,
      folded D_def]
  show ?thesis
    unfolding DD using body a by (simp split: option.splits sum.splits)
qed

theorem C2_status_handling_witness:
  "snd (doDifyRequest example_cfg (flaky_world 1 200 ''hi'') ''POST'' difyChatMessagesPath
          ''hello'' ''application/json'' ''Chat API''
          (Some (jsonUnmarshalChat (flaky_world 1 200 ''hi''))))
     = Ok (Some \<lparr>Answer = ''hi''\<rparr>)
   \<and> snd (doDifyRequest example_cfg (answering_world 404 ''gone'') ''POST'' difyChatMessagesPath
          ''hello'' ''application/json'' ''Chat API''
          (Some (jsonUnmarshalChat (answering_world 404 ''gone''))))
     = Fail (ErrorStatus ''Chat API'' 404 ''gone'')"
proof -
  have new1: "httpNewRequest (flaky_world 1 200 ''hi'') ''POST''
                (BaseURL example_cfg @ difyChatMessagesPath) = None"
    by (simp add: flaky_world_def offline_world_def)
  have b1: "\<forall>j<1. \<exists>e. httpClientDo (flaky_world 1 200 ''hi'')
       (difyRequest example_cfg ''POST'' (BaseURL example_cfg @ difyChatMessagesPath) ''hello''
       ''application/json'') j = Inl e"
    by (simp add: flaky_world_def offline_world_def)
  have r1: "httpClientDo (flaky_world 1 200 ''hi'')
       (difyRequest example_cfg ''POST'' (BaseURL example_cfg @ difyChatMessagesPath) ''hello''
       ''application/json'') 1 = Inr \<lparr>StatusCode = 200, ReadAll = Inr ''hi''\<rparr>"
    by (simp add: flaky_world_def offline_world_def)
  have new2: "httpNewRequest (answering_world 404 ''gone'') ''POST''
                (BaseURL example_cfg @ difyChatMessagesPath) = None"
    by (simp add: answering_world_def offline_world_def)
  have b2: "\<forall>j<0. \<exists>e. httpClientDo (answering_world 404 ''gone'')
       (difyRequest example_cfg ''POST'' (BaseURL example_cfg @ difyChatMessagesPath) ''hello''
       ''application/json'') j = Inl e"
    by simp
  have r2: "httpClientDo (answering_world 404 ''gone'')
       (difyRequest example_cfg ''POST'' (BaseURL example_cfg @ difyChatMessagesPath) ''hello''
       ''application/json'') 0 = Inr \<lparr>StatusCode = 404, ReadAll = Inr ''gone''\<rparr>"
    by (simp add: answering_world_def offline_world_def)
  from C2_status_handling[OF new1 _ b1 r1, of "''hi''" "''Chat API''"
      "Some (jsonUnmarshalChat (flaky_world 1 200 ''hi''))"]
  have a: "snd (doDifyRequest example_cfg (flaky_world 1 200 ''hi'') ''POST'' difyChatMessagesPath
          ''hello'' ''application/json'' ''Chat API''
          (Some (jsonUnmarshalChat (flaky_world 1 200 ''hi''))))
     = Ok (Some \<lparr>Answer = ''hi''\<rparr>)"
    by (simp add: flaky_world_def offline_world_def)
  from C2_status_handling[OF new2 _ b2 r2, of "''gone''" "''Chat API''"
      "Some (jsonUnmarshalChat (answering_world 404 ''gone''))"]
  have b: "snd (doDifyRequest example_cfg (answering_world 404 ''gone'') ''POST'' difyChatMessagesPath
          ''hello'' ''application/json'' ''Chat API''
          (Some (jsonUnmarshalChat (answering_world 404 ''gone''))))
     = Fail (ErrorStatus ''Chat API'' 404 ''gone'')"
    by (simp add: answering_world_def offline_world_def)
  from a b show ?thesis by (rule conjI)
qed

text \<open>
  C2 as stated speaks of any 2xx status. A response with status 201, a readable body
  that the destination's decoder accepts and a destination supplied makes the call fail
  with the raw status and body.
\<close>

theorem C2_any_2xx_counterexample:
  "(200::int) \<le> 201 \<and> (201::int) < 300
   \<and> jsonUnmarshalChat (answering_world 201 ''hi'') ''hi'' = Inr \<lparr>Answer = ''hi''\<rparr>
   \<and> doDifyRequest example_cfg (answering_world 201 ''hi'') ''POST'' difyChatMessagesPath
          ''hello'' ''application/json'' ''Chat API''
          (Some (jsonUnmarshalChat (answering_world 201 ''hi'')))
     = ([EvHttpDo example_request], Fail (ErrorStatus ''Chat API'' 201 ''hi''))"
proof -
  have new: "httpNewRequest (answering_world 201 ''hi'') ''POST''
                (BaseURL example_cfg @ difyChatMessagesPath) = None"
    by (simp add: answering_world_def offline_world_def)
  have l: "doDifyRequest_loop (answering_world 201 ''hi'')
       (difyRequest example_cfg ''POST'' (BaseURL example_cfg @ difyChatMessagesPath) ''hello''
       ''application/json'') 0 (None, None)
      = ([EvHttpDo example_request], Some \<lparr>StatusCode = 201, ReadAll = Inr ''hi''\<rparr>, None)"
    by (simp add: loop_three example_request_def answering_world_def offline_world_def)
  show ?thesis
    unfolding doDifyRequest_after_loop[OF new l]
    by (simp add: answering_world_def offline_world_def)
qed

section \<open>Properties of the backend client\<close>

lemma doDifyRequest_Ok:
  assumes "doDifyRequest cfg w meth path body contentType logPrefix (Some decode) = (trace, Ok d)"
  shows "\<exists>respBody v. d = Some v \<and> decode respBody = Inr v"
proof (cases "httpNewRequest w meth (BaseURL cfg @ path)")
  case (Some e)
  with assms show ?thesis by (simp add: doDifyRequest_def)
next
  case None
  obtain tr resp err where
    l: "doDifyRequest_loop w (difyRequest cfg meth (BaseURL cfg @ path) body contentType) 0
          (None, None) = (tr, resp, err)"
    by (metis prod_cases3)
  from assms show ?thesis
    unfolding doDifyRequest_after_loop[OF None l]
    by (auto split: option.splits sum.splits if_splits)
qed

lemma doDifyRequest_answering:
  "doDifyRequest cfg (answering_world status respBody) meth path body contentType logPrefix
     (Some decode) =
   ([EvHttpDo (difyRequest cfg meth (BaseURL cfg @ path) body contentType)],
    if status \<noteq> 200 then Fail (ErrorStatus logPrefix status respBody)
    else (case decode respBody of
            Inl e \<Rightarrow> Fail (ParseSuccessFailed logPrefix e)
          | Inr v \<Rightarrow> Ok (Some v)))"
proof -
  have new: "httpNewRequest (answering_world status respBody) meth (BaseURL cfg @ path) = None"
    by (simp add: answering_world_def offline_world_def)
  have l: "doDifyRequest_loop (answering_world status respBody)
       (difyRequest cfg meth (BaseURL cfg @ path) body contentType) 0 (None, None)
      = ([EvHttpDo (difyRequest cfg meth (BaseURL cfg @ path) body contentType)],
         Some \<lparr>StatusCode = status, ReadAll = Inr respBody\<rparr>, None)"
    by (simp add: loop_three answering_world_def offline_world_def)
  show ?thesis
    unfolding doDifyRequest_after_loop[OF new l]
    by (simp add: answering_world_def offline_world_def split: sum.splits)
qed

lemma answering_world_json:
  "jsonMarshalChat (answering_world status respBody) = (\<lambda>request. Inr (Query request))"
  "jsonUnmarshalChat (answering_world status respBody) = (\<lambda>body. Inr \<lparr>Answer = body\<rparr>)"
  by (simp_all add: answering_world_def offline_world_def)

lemma CallDifyChatAPI_answering:
  "CallDifyChatAPI example_cfg (answering_world 200 respBody) example_chat =
     ([EvHttpDo example_request],
      if respBody = [] then Fail NoValidAnswer else Ok \<lparr>Answer = respBody\<rparr>)"
  by (simp add: CallDifyChatAPI_def doDifyRequest_answering answering_world_json
      example_chat_def example_request_def Let_def)
     (simp add: example_cfg_def)

lemma answering_world_marshal:
  "jsonMarshalCompletion (answering_world status respBody) = (\<lambda>request. Inr (Prompt request))"
  "jsonMarshalWorkflow (answering_world status respBody)
     = (\<lambda>request. Inr (DifyWorkflowRequest.WorkflowID request))"
  "jsonUnmarshalCompletion (answering_world status respBody) = (\<lambda>body. Inr \<lparr>Text = body\<rparr>)"
  "jsonUnmarshalWorkflow (answering_world status respBody) = (\<lambda>body. Inr \<lparr>Data = None\<rparr>)"
  by (simp_all add: answering_world_def offline_world_def)

text \<open>
  C7. A successful backend call never yields an empty payload: when \<open>CallDifyChatAPI\<close>
  returns a response without an error, that response is one the decoder produced from a
  body and its answer is not the empty string; likewise the text of
  \<open>CallDifyCompletionAPI\<close>; and the data object of a response that
  \<open>CallDifyWorkflowAPI\<close> returns without an error is not nil. And each operation returns
  an error whenever the decoded field is empty: with the base URL and the API key
  configured, once the request as sent (the default role added to the inputs of a chat
  or completion request that has none, nil inputs of a workflow request made empty,
  blocking mode set) is marshalled and \<open>doDifyRequest\<close> has decoded a response \<open>r\<close>,
  the chat call returns the missing-answer error when the answer of \<open>r\<close> is the empty
  string and \<open>r\<close> otherwise, the completion call the missing-text error when its text
  is the empty string and \<open>r\<close> otherwise, and the workflow call the missing-data error
  when its data object is nil and \<open>r\<close> otherwise, each with the trace of the request.
\<close>

theorem C7_no_empty_success:
  fixes cfg w chatRequest completionRequest workflowRequest chatSent completionSent workflowSent
  defines "chatSent \<equiv> chatRequest
      \<lparr>Inputs := Some (case Inputs chatRequest of
                         None \<Rightarrow> [''role'' \<mapsto> JString defaultRole]
                       | Some m \<Rightarrow> if m ''role'' = None then m(''role'' \<mapsto> JString defaultRole) else m),
       ResponseMode := responseModeBlocking\<rparr>"
    and "completionSent \<equiv> completionRequest
      \<lparr>Inputs := Some (case Inputs completionRequest of
                         None \<Rightarrow> [''role'' \<mapsto> JString defaultRole]
                       | Some m \<Rightarrow> if m ''role'' = None then m(''role'' \<mapsto> JString defaultRole) else m),
       ResponseMode := responseModeBlocking\<rparr>"
    and "workflowSent \<equiv> workflowRequest
      \<lparr>Inputs := Some (case Inputs workflowRequest of None \<Rightarrow> Map.empty | Some m \<Rightarrow> m),
       ResponseMode := responseModeBlocking\<rparr>"
  shows
   "(\<forall>trace r. CallDifyChatAPI cfg w chatRequest = (trace, Ok r) \<longrightarrow>
       Answer r \<noteq> [] \<and> (\<exists>respBody. jsonUnmarshalChat w respBody = Inr r))
   \<and> (\<forall>trace r. CallDifyCompletionAPI cfg w completionRequest = (trace, Ok r) \<longrightarrow>
       Text r \<noteq> [] \<and> (\<exists>respBody. jsonUnmarshalCompletion w respBody = Inr r))
   \<and> (\<forall>trace r. CallDifyWorkflowAPI cfg w workflowRequest = (trace, Ok r) \<longrightarrow>
       Data r \<noteq> None \<and> (\<exists>respBody. jsonUnmarshalWorkflow w respBody = Inr r))
   \<and> (BaseURL cfg \<noteq> [] \<and> APIKey cfg \<noteq> [] \<longrightarrow>
        (\<forall>jsonData trace r.
           jsonMarshalChat w chatSent = Inr jsonData
           \<and> doDifyRequest cfg w ''POST'' difyChatMessagesPath jsonData ''application/json''
                 ''Chat API'' (Some (jsonUnmarshalChat w)) = (trace, Ok (Some r)) \<longrightarrow>
           CallDifyChatAPI cfg w chatRequest
             = (trace, if Answer r = [] then Fail NoValidAnswer else Ok r))
      \<and> (\<forall>jsonData trace r.
           jsonMarshalCompletion w completionSent = Inr jsonData
           \<and> doDifyRequest cfg w ''POST'' difyCompletionMessagesPath jsonData ''application/json''
                 ''Completion API'' (Some (jsonUnmarshalCompletion w)) = (trace, Ok (Some r)) \<longrightarrow>
           CallDifyCompletionAPI cfg w completionRequest
             = (trace, if Text r = [] then Fail NoValidText else Ok r))
      \<and> (\<forall>jsonData trace r.
           jsonMarshalWorkflow w workflowSent = Inr jsonData
           \<and> doDifyRequest cfg w ''POST'' difyWorkflowRunPath jsonData ''application/json''
                 ''Workflow API'' (Some (jsonUnmarshalWorkflow w)) = (trace, Ok (Some r)) \<longrightarrow>
           CallDifyWorkflowAPI cfg w workflowRequest
             = (trace, if Data r = None then Fail NoValidData else Ok r)))"
proof -
  have same: "x\<lparr>Inputs := Some a\<rparr> = x" if "Inputs x = Some a"
    for x :: "'z DifyBaseRequest_scheme" and a
    using that by (cases x) simp
  have inv1: "Answer r \<noteq> [] \<and> (\<exists>respBody. jsonUnmarshalChat w respBody = Inr r)"
    if "CallDifyChatAPI cfg w chatRequest = (trace, Ok r)" for trace r
    using that
    by (auto simp: CallDifyChatAPI_def Let_def
        split: if_splits sum.splits prod.splits res.splits option.splits
        dest!: doDifyRequest_Ok)
  have inv2: "Text r \<noteq> [] \<and> (\<exists>respBody. jsonUnmarshalCompletion w respBody = Inr r)"
    if "CallDifyCompletionAPI cfg w completionRequest = (trace, Ok r)" for trace r
    using that
    by (auto simp: CallDifyCompletionAPI_def Let_def
        split: if_splits sum.splits prod.splits res.splits option.splits
        dest!: doDifyRequest_Ok)
  have inv3: "Data r \<noteq> None \<and> (\<exists>respBody. jsonUnmarshalWorkflow w respBody = Inr r)"
    if "CallDifyWorkflowAPI cfg w workflowRequest = (trace, Ok r)" for trace r
    using that
    by (auto simp: CallDifyWorkflowAPI_def Let_def
        split: if_splits sum.splits prod.splits res.splits option.splits
        dest!: doDifyRequest_Ok)
  have dir1: "CallDifyChatAPI cfg w chatRequest
             = (trace, if Answer r = [] then Fail NoValidAnswer else Ok r)"
    if "BaseURL cfg \<noteq> [] \<and> APIKey cfg \<noteq> []" "jsonMarshalChat w chatSent = Inr jsonData"
       "doDifyRequest cfg w ''POST'' difyChatMessagesPath jsonData ''application/json''
                 ''Chat API'' (Some (jsonUnmarshalChat w)) = (trace, Ok (Some r))"
    for jsonData trace r
    using that
    by (cases "Inputs chatRequest")
       (auto simp: CallDifyChatAPI_def chatSent_def Let_def same split: if_splits)
  have dir2: "CallDifyCompletionAPI cfg w completionRequest
             = (trace, if Text r = [] then Fail NoValidText else Ok r)"
    if "BaseURL cfg \<noteq> [] \<and> APIKey cfg \<noteq> []"
       "jsonMarshalCompletion w completionSent = Inr jsonData"
       "doDifyRequest cfg w ''POST'' difyCompletionMessagesPath jsonData ''application/json''
                 ''Completion API'' (Some (jsonUnmarshalCompletion w)) = (trace, Ok (Some r))"
    for jsonData trace r
    using that
    by (cases "Inputs completionRequest")
       (auto simp: CallDifyCompletionAPI_def completionSent_def Let_def same split: if_splits)
  have dir3: "CallDifyWorkflowAPI cfg w workflowRequest
             = (trace, if Data r = None then Fail NoValidData else Ok r)"
    if "BaseURL cfg \<noteq> [] \<and> APIKey cfg \<noteq> []"
       "jsonMarshalWorkflow w workflowSent = Inr jsonData"
       "doDifyRequest cfg w ''POST'' difyWorkflowRunPath jsonData ''application/json''
                 ''Workflow API'' (Some (jsonUnmarshalWorkflow w)) = (trace, Ok (Some r))"
    for jsonData trace r
    using that
    by (cases "Inputs workflowRequest")
       (auto simp: CallDifyWorkflowAPI_def workflowSent_def Let_def same split: if_splits)
  show ?thesis
    using inv1 inv2 inv3 dir1 dir2 dir3 by (intro conjI allI impI) blast+
qed

theorem C7_no_empty_success_witness:
  "CallDifyChatAPI example_cfg (answering_world 200 ''hi'') example_chat
     = ([EvHttpDo example_request], Ok \<lparr>Answer = ''hi''\<rparr>)
   \<and> Answer \<lparr>Answer = ''hi''\<rparr> \<noteq> []
   \<and> CallDifyChatAPI example_cfg (answering_world 200 []) example_chat
     = ([EvHttpDo example_request], Fail NoValidAnswer)
   \<and> CallDifyCompletionAPI example_cfg (answering_world 200 []) example_completion
     = ([EvHttpDo (difyRequest example_cfg ''POST''
                     (BaseURL example_cfg @ difyCompletionMessagesPath) ''hello''
                     ''application/json'')], Fail NoValidText)
   \<and> CallDifyWorkflowAPI example_cfg (answering_world 200 ''null'') example_workflow
     = ([EvHttpDo (difyRequest example_cfg ''POST''
                     (BaseURL example_cfg @ difyWorkflowRunPath) ''wf-1''
                     ''application/json'')], Fail NoValidData)"
proof -
  have cfg: "BaseURL example_cfg \<noteq> [] \<and> APIKey example_cfg \<noteq> []"
    by (simp add: example_cfg_def)
  note hi = C7_no_empty_success[where cfg = example_cfg and w = "answering_world 200 ''hi''"
      and chatRequest = example_chat]
  note empty = C7_no_empty_success[where cfg = example_cfg and w = "answering_world 200 []"
      and chatRequest = example_chat and completionRequest = example_completion]
  note null = C7_no_empty_success[where cfg = example_cfg and w = "answering_world 200 ''null''"
      and workflowRequest = example_workflow]
  have a: "CallDifyChatAPI example_cfg (answering_world 200 ''hi'') example_chat
     = ([EvHttpDo example_request], Ok \<lparr>Answer = ''hi''\<rparr>)"
    using hi[THEN conjunct2, THEN conjunct2, THEN conjunct2, THEN mp, OF cfg, THEN conjunct1,
        rule_format, of "''hello''" "[EvHttpDo example_request]" "\<lparr>Answer = ''hi''\<rparr>"]
    by (simp add: answering_world_json doDifyRequest_answering example_chat_def
        example_request_def)
  from hi a have b: "Answer \<lparr>Answer = ''hi''\<rparr> \<noteq> []" by blast
  have c: "CallDifyChatAPI example_cfg (answering_world 200 []) example_chat
     = ([EvHttpDo example_request], Fail NoValidAnswer)"
    using empty[THEN conjunct2, THEN conjunct2, THEN conjunct2, THEN mp, OF cfg, THEN conjunct1,
        rule_format, of "''hello''" "[EvHttpDo example_request]" "\<lparr>Answer = []\<rparr>"]
    by (simp add: answering_world_json doDifyRequest_answering example_chat_def
        example_request_def)
  have d: "CallDifyCompletionAPI example_cfg (answering_world 200 []) example_completion
     = ([EvHttpDo (difyRequest example_cfg ''POST''
                     (BaseURL example_cfg @ difyCompletionMessagesPath) ''hello''
                     ''application/json'')], Fail NoValidText)"
    using empty[THEN conjunct2, THEN conjunct2, THEN conjunct2, THEN mp, OF cfg, THEN conjunct2,
        THEN conjunct1, rule_format, of "''hello''"
        "[EvHttpDo (difyRequest example_cfg ''POST''
                     (BaseURL example_cfg @ difyCompletionMessagesPath) ''hello''
                     ''application/json'')]" "\<lparr>Text = []\<rparr>"]
    by (simp add: answering_world_marshal doDifyRequest_answering example_completion_def)
  have e: "CallDifyWorkflowAPI example_cfg (answering_world 200 ''null'') example_workflow
     = ([EvHttpDo (difyRequest example_cfg ''POST''
                     (BaseURL example_cfg @ difyWorkflowRunPath) ''wf-1''
                     ''application/json'')], Fail NoValidData)"
    using null[THEN conjunct2, THEN conjunct2, THEN conjunct2, THEN mp, OF cfg, THEN conjunct2,
        THEN conjunct2, rule_format, of "''wf-1''"
        "[EvHttpDo (difyRequest example_cfg ''POST''
                     (BaseURL example_cfg @ difyWorkflowRunPath) ''wf-1''
                     ''application/json'')]" "\<lparr>Data = None\<rparr>"]
    by (simp add: answering_world_marshal doDifyRequest_answering example_workflow_def)
  from a b c d e show ?thesis by (intro conjI)
qed

section \<open>Properties of the orchestrator\<close>

lemma preprocessMessage_plain:
  "\<not> stringsHasPrefix message ''/image '' \<Longrightarrow> preprocessMessage message = (message, False, None)"
  by (simp add: preprocessMessage_def)

lemma callDify_unsupported:
  "BotType cfg \<notin> {''chat'', ''completion'', ''workflow''} \<Longrightarrow>
   callDify cfg w message user conversationID filePath = ([], Fail (UnsupportedBotType (BotType cfg)))"
  by (simp add: callDify_def)

lemma answering_world_channel:
  "jsonUnmarshalMap (answering_world status respBody) = (\<lambda>body. Inl (Opaque ''invalid character''))"
  "SendTextMessage (answering_world status respBody) = (\<lambda>message. None)"
  by (simp_all add: answering_world_def offline_world_def)

lemma postprocess_text_short:
  "length difyResponse \<le> maxWeComMessageLength \<Longrightarrow>
   postprocess_text w difyResponse
     = ([EvSendText difyResponse], of_error (SendTextMessage w difyResponse))"
  by (simp add: postprocess_text_def)

text \<open>
  C6, as the code has it. Each backend-client operation (chat, completion, workflow,
  file upload) returns the configuration error at once, with no effect at all, when the
  configured base URL or API key is empty. \<open>ConvertAndSend\<close>, for a message that the
  pre-filter does not handle (one that does not begin with \<open>/image \<close>) and a configured
  bot type outside chat, completion and workflow, returns an error with no effect at
  all: no backend operation and no outbound send. The error is the empty-request error
  when there is neither a message, nor a default prompt, nor a file path, and the
  unsupported-bot-type error otherwise.
\<close>

theorem C6_configuration_errors:
  "(BaseURL cfg = [] \<or> APIKey cfg = [] \<longrightarrow>
       CallDifyChatAPI cfg w chatRequest = ([], Fail NotConfigured)
     \<and> CallDifyCompletionAPI cfg w completionRequest = ([], Fail NotConfigured)
     \<and> CallDifyWorkflowAPI cfg w workflowRequest = ([], Fail NotConfigured)
     \<and> UploadFile cfg w filePath user = ([], Fail NotConfigured))
   \<and> (BotType cfg \<notin> {''chat'', ''completion'', ''workflow''}
        \<and> \<not> stringsHasPrefix message ''/image '' \<longrightarrow>
       ConvertAndSend cfg w message user conversationID filePath =
         (if message = [] \<and> DefaultPrompt cfg = [] \<and> filePath = []
          then ([], Fail EmptyMessageAndFile)
          else ([], Fail (CallDifyFailed (UnsupportedBotType (BotType cfg))))))"
proof (intro conjI impI)
  assume "BaseURL cfg = [] \<or> APIKey cfg = []"
  then show "CallDifyChatAPI cfg w chatRequest = ([], Fail NotConfigured)"
    "CallDifyCompletionAPI cfg w completionRequest = ([], Fail NotConfigured)"
    "CallDifyWorkflowAPI cfg w workflowRequest = ([], Fail NotConfigured)"
    "UploadFile cfg w filePath user = ([], Fail NotConfigured)"
    by (auto simp: CallDifyChatAPI_def CallDifyCompletionAPI_def CallDifyWorkflowAPI_def
        UploadFile_def)
next
  assume a: "BotType cfg \<notin> {''chat'', ''completion'', ''workflow''}
        \<and> \<not> stringsHasPrefix message ''/image ''"
  then have pre: "preprocessMessage message = (message, False, None)"
    by (simp add: preprocessMessage_plain)
  have un: "callDifyAndSend cfg w m user conversationID filePath
      = ([], Fail (CallDifyFailed (UnsupportedBotType (BotType cfg))))" for m
    using a by (simp add: callDifyAndSend_def callDify_unsupported)
  show "ConvertAndSend cfg w message user conversationID filePath =
         (if message = [] \<and> DefaultPrompt cfg = [] \<and> filePath = []
          then ([], Fail EmptyMessageAndFile)
          else ([], Fail (CallDifyFailed (UnsupportedBotType (BotType cfg)))))"
    by (simp add: ConvertAndSend_def pre un Let_def)
qed

theorem C6_configuration_errors_witness:
  "CallDifyChatAPI (example_cfg\<lparr>APIKey := []\<rparr>) (answering_world 200 ''hi'') example_chat
     = ([], Fail NotConfigured)
   \<and> ConvertAndSend (example_cfg\<lparr>BotType := ''unknown''\<rparr>) (answering_world 200 ''hi'')
        ''hello'' ''u1'' [] []
     = ([], Fail (CallDifyFailed (UnsupportedBotType ''unknown'')))"
proof -
  have k: "BaseURL (example_cfg\<lparr>APIKey := []\<rparr>) = [] \<or> APIKey (example_cfg\<lparr>APIKey := []\<rparr>) = []"
    by simp
  have u: "BotType (example_cfg\<lparr>BotType := ''unknown''\<rparr>) \<notin> {''chat'', ''completion'', ''workflow''}
        \<and> \<not> stringsHasPrefix ''hello'' ''/image ''"
    by (simp add: stringsHasPrefix_def)
  from C6_configuration_errors[of "example_cfg\<lparr>APIKey := []\<rparr>" "answering_world 200 ''hi''"
      example_chat] k
  have a: "CallDifyChatAPI (example_cfg\<lparr>APIKey := []\<rparr>) (answering_world 200 ''hi'') example_chat
     = ([], Fail NotConfigured)" by blast
  from C6_configuration_errors[where cfg = "example_cfg\<lparr>BotType := ''unknown''\<rparr>"
      and message = "''hello''" and w = "answering_world 200 ''hi''" and user = "''u1''"
      and conversationID = "[]" and filePath = "[]"] u
  have b: "ConvertAndSend (example_cfg\<lparr>BotType := ''unknown''\<rparr>) (answering_world 200 ''hi'')
        ''hello'' ''u1'' [] []
     = ([], Fail (CallDifyFailed (UnsupportedBotType ''unknown'')))"
    by simp
  from a b show ?thesis by (rule conjI)
qed

text \<open>
  C6 as stated covers every message. With the bot type \<open>unknown\<close> and the message
  \<open>/image cat\<close> the pre-filter answers by itself: the call sends a text on the outbound
  channel and returns no error.
\<close>

theorem C6_prefilter_counterexample:
  "BotType (example_cfg\<lparr>BotType := ''unknown''\<rparr>) \<notin> {''chat'', ''completion'', ''workflow''}
   \<and> ConvertAndSend (example_cfg\<lparr>BotType := ''unknown''\<rparr>) offline_world
        ''/image cat'' ''u1'' [] []
     = ([EvSendText imageCommandReply], Ok ())"
  by (simp add: ConvertAndSend_def preprocessMessage_def stringsHasPrefix_def of_error_def
      offline_world_def imageCommandReply_def)

text \<open>
  C8. A message that the pre-filter does not handle goes on unchanged when it is not
  empty. The empty message (which the pre-filter never handles) is replaced by the
  configured default prompt when there is one, and the call goes on with that prompt.
  When there is no default prompt and no file path either, the call fails at once with
  the empty-request error and no effect: no backend call and no outbound send. With a
  file path it goes on with the empty message.
\<close>

theorem C8_default_prompt_and_empty_request:
  "(DefaultPrompt cfg \<noteq> [] \<longrightarrow>
      ConvertAndSend cfg w [] user conversationID filePath
        = callDifyAndSend cfg w (DefaultPrompt cfg) user conversationID filePath)
   \<and> (DefaultPrompt cfg = [] \<and> filePath = [] \<longrightarrow>
      ConvertAndSend cfg w [] user conversationID filePath = ([], Fail EmptyMessageAndFile))
   \<and> (DefaultPrompt cfg = [] \<and> filePath \<noteq> [] \<longrightarrow>
      ConvertAndSend cfg w [] user conversationID filePath
        = callDifyAndSend cfg w [] user conversationID filePath)
   \<and> (message \<noteq> [] \<and> \<not> stringsHasPrefix message ''/image '' \<longrightarrow>
      ConvertAndSend cfg w message user conversationID filePath
        = callDifyAndSend cfg w message user conversationID filePath)"
proof -
  have "\<not> stringsHasPrefix [] ''/image ''"
    by (simp add: stringsHasPrefix_def)
  then have pre: "preprocessMessage [] = ([], False, None)"
    by (rule preprocessMessage_plain)
  show ?thesis
    by (auto simp: ConvertAndSend_def pre preprocessMessage_plain Let_def)
qed

theorem C8_default_prompt_and_empty_request_witness:
  "ConvertAndSend (example_cfg\<lparr>DefaultPrompt := ''daily report''\<rparr>) (answering_world 200 ''ok'')
       [] ''u1'' [] []
     = ([EvHttpDo (difyRequest example_cfg ''POST'' (BaseURL example_cfg @ difyChatMessagesPath)
                     ''daily report'' ''application/json''),
         EvSendText ''ok''], Ok ())
   \<and> ConvertAndSend example_cfg (answering_world 200 ''ok'') [] ''u1'' [] []
     = ([], Fail EmptyMessageAndFile)"
proof -
  let ?cfg = "example_cfg\<lparr>DefaultPrompt := ''daily report''\<rparr>"
  let ?w = "answering_world 200 ''ok''"
  have short: "length ''ok'' \<le> maxWeComMessageLength"
    by (simp add: maxWeComMessageLength_def)
  have chat: "CallDifyChatAPI ?cfg ?w
       \<lparr>Inputs = Some Map.empty, User = ''u1'', ResponseMode = responseModeBlocking, Files = [],
        Query = ''daily report'', ConversationID = []\<rparr>
     = ([EvHttpDo (difyRequest ?cfg ''POST'' (BaseURL ?cfg @ difyChatMessagesPath)
                     ''daily report'' ''application/json'')], Ok \<lparr>Answer = ''ok''\<rparr>)"
    by (simp add: CallDifyChatAPI_def doDifyRequest_answering answering_world_json Let_def)
       (simp add: example_cfg_def)
  have bot: "BotType ?cfg = ''chat''"
    by (simp add: example_cfg_def)
  have post: "postprocessDifyResponse ?cfg ?w ''ok'' = ([EvSendText ''ok''], Ok ())"
    by (simp add: postprocessDifyResponse_def answering_world_channel
        postprocess_text_short[OF short] of_error_def)
  have run: "callDifyAndSend ?cfg ?w ''daily report'' ''u1'' [] []
     = ([EvHttpDo (difyRequest example_cfg ''POST'' (BaseURL example_cfg @ difyChatMessagesPath)
                     ''daily report'' ''application/json''),
         EvSendText ''ok''], Ok ())"
    unfolding callDifyAndSend_def callDify_def bot
    by (simp add: chat post) (simp add: difyRequest_def)
  have "DefaultPrompt ?cfg \<noteq> []" by simp
  with C8_default_prompt_and_empty_request[of ?cfg ?w "''u1''" "[]" "[]"]
  have a: "ConvertAndSend ?cfg ?w [] ''u1'' [] [] = callDifyAndSend ?cfg ?w ''daily report'' ''u1'' [] []"
    by simp
  have "DefaultPrompt example_cfg = [] \<and> ([]::string) = []"
    by (simp add: example_cfg_def)
  with C8_default_prompt_and_empty_request[of example_cfg ?w "''u1''" "[]" "[]"]
  have b: "ConvertAndSend example_cfg ?w [] ''u1'' [] [] = ([], Fail EmptyMessageAndFile)"
    by blast
  from a run b show ?thesis by simp
qed

section \<open>Properties of the formatter\<close>

lemma nonempty_string_field_Some:
  "nonempty_string_field m key = Some v \<longleftrightarrow> m key = Some (JString v) \<and> v \<noteq> []"
  by (auto simp: nonempty_string_field_def string_field_def split: option.splits json.splits)

lemma nonempty_string_field_None:
  "nonempty_string_field m key = None \<longleftrightarrow> \<not> (\<exists>v. m key = Some (JString v) \<and> v \<noteq> [])"
  by (auto simp: nonempty_string_field_def string_field_def split: option.splits json.splits)

lemma sends_DownloadFile: "sends (fst (DownloadFile w url path)) = []"
  by (simp add: DownloadFile_def sends_def split: sum.splits option.splits)




lemma postprocess_media_sent:
  assumes "osCreateTemp w (tempPattern tempPrefix defaultExt url) = Inr tempFilePath"
    and "DownloadFile w url tempFilePath = (trace, None)"
    and "sendMedia w tempFilePath = None"
  shows "postprocess_media w sendMedia evSend tempPrefix defaultExt noticePrefix url =
     (EvCreateTemp (tempPattern tempPrefix defaultExt url) # trace
        @ [evSend tempFilePath, EvRemove tempFilePath],
      Ok ())"
  using assms by (simp add: postprocess_media_def Let_def)

lemma sends_download_trace:
  "DownloadFile w url path = (trace, r) \<Longrightarrow> sends trace = []"
  using sends_DownloadFile[of w url path] by simp

lemma tempPattern_example: "tempPattern ''dify_image_*'' ''.png'' ''http://x/y.png'' = ''dify_image_*.png''"
  by (simp add: tempPattern_def filepathExt_def)

lemma serving_world_fields:
  "jsonUnmarshalMap (serving_world obj) = (\<lambda>body. Inr obj)"
  "osCreateTemp (serving_world obj) = (\<lambda>pattern. Inr (''/tmp/'' @ pattern))"
  "httpClientGet (serving_world obj) = (\<lambda>url. Inr \<lparr>StatusCode = 200, ReadAll = Inr ''content''\<rparr>)"
  "osCreate (serving_world obj) = (\<lambda>path. None)"
  "ioCopyBody (serving_world obj) = (\<lambda>url path. None)"
  "SendImageMessage (serving_world obj) = (\<lambda>path. None)"
  "SendTextMessage (serving_world obj) = (\<lambda>message. None)"
  by (simp_all add: serving_world_def parsing_world_def offline_world_def)

lemma parsing_world_fields:
  "jsonUnmarshalMap (parsing_world obj) = (\<lambda>body. Inr obj)"
  "osCreateTemp (parsing_world obj) = (\<lambda>pattern. Inr (''/tmp/'' @ pattern))"
  "httpClientGet (parsing_world obj) = (\<lambda>url. Inl (Opaque ''connection refused''))"
  "SendMarkdownMessage (parsing_world obj) = (\<lambda>content. None)"
  "SendTextMessage (parsing_world obj) = (\<lambda>message. None)"
  by (simp_all add: parsing_world_def offline_world_def)

text \<open>
  C3. The outbound shape is chosen in this order, the first match winning. A payload
  that does not parse as a JSON object takes the plain-text path. For one that parses:
  an \<open>image_url\<close> that is a non-empty string takes the image branch; else a
  \<open>file_url\<close> that is a non-empty string takes the file branch; else a \<open>markdown\<close>
  that is a non-empty string is sent as Markdown, and that is the only send; else a
  present \<open>data\<close> field with the configured bot type \<open>workflow\<close> sends the raw payload
  as Text; everything else takes the plain-text path. In the image and the file branch,
  once the scratch file is there, the download has succeeded and the typed send has
  succeeded, the call returns no error and the typed send is the only send. On the
  plain-text path a payload of at most 2048 bytes is sent as one Text, unchanged, and
  that is the only effect; a longer one is sent as one Text made of its first 1998
  runes and the note, unless the slice expression that takes those runes panics, in
  which case nothing is sent. So whenever the plain-text path does not panic, its one
  effect is the send of a Text, and what that send returns is what the call returns.
\<close>

theorem C3_decision_order:
  fixes cfg w difyResponse P
  defines "P \<equiv> postprocessDifyResponse cfg w difyResponse"
  shows
   "(\<forall>e. jsonUnmarshalMap w difyResponse = Inl e \<longrightarrow> P = postprocess_text w difyResponse)
    \<and> (\<forall>m. jsonUnmarshalMap w difyResponse = Inr m \<longrightarrow>
         (\<forall>u. m ''image_url'' = Some (JString u) \<and> u \<noteq> [] \<longrightarrow> P = postprocess_image w u)
       \<and> (\<not> (\<exists>u. m ''image_url'' = Some (JString u) \<and> u \<noteq> []) \<longrightarrow>
            (\<forall>f. m ''file_url'' = Some (JString f) \<and> f \<noteq> [] \<longrightarrow> P = postprocess_file w f)
          \<and> (\<not> (\<exists>f. m ''file_url'' = Some (JString f) \<and> f \<noteq> []) \<longrightarrow>
               (\<forall>md. m ''markdown'' = Some (JString md) \<and> md \<noteq> [] \<longrightarrow>
                  P = ([EvSendMarkdown md], of_error (SendMarkdownMessage w md)))
             \<and> (\<not> (\<exists>md. m ''markdown'' = Some (JString md) \<and> md \<noteq> []) \<longrightarrow>
                  (m ''data'' \<noteq> None \<and> BotType cfg = ''workflow'' \<longrightarrow>
                     P = ([EvSendText difyResponse], of_error (SendTextMessage w difyResponse)))
                \<and> (\<not> (m ''data'' \<noteq> None \<and> BotType cfg = ''workflow'') \<longrightarrow>
                     P = postprocess_text w difyResponse)))))
    \<and> (\<forall>u tempFilePath trace.
         osCreateTemp w (tempPattern ''dify_image_*'' ''.png'' u) = Inr tempFilePath
         \<and> DownloadFile w u tempFilePath = (trace, None)
         \<and> SendImageMessage w tempFilePath = None \<longrightarrow>
         snd (postprocess_image w u) = Ok ()
         \<and> sends (fst (postprocess_image w u)) = [EvSendImage tempFilePath])
    \<and> (\<forall>f tempFilePath trace.
         osCreateTemp w (tempPattern ''dify_file_*'' ''.bin'' f) = Inr tempFilePath
         \<and> DownloadFile w f tempFilePath = (trace, None)
         \<and> SendFileMessage w tempFilePath = None \<longrightarrow>
         snd (postprocess_file w f) = Ok ()
         \<and> sends (fst (postprocess_file w f)) = [EvSendFile tempFilePath])
    \<and> ((\<exists>e. jsonUnmarshalMap w difyResponse = Inl e)
        \<or> (\<exists>m. jsonUnmarshalMap w difyResponse = Inr m
              \<and> \<not> (\<exists>u. m ''image_url'' = Some (JString u) \<and> u \<noteq> [])
              \<and> \<not> (\<exists>f. m ''file_url'' = Some (JString f) \<and> f \<noteq> [])
              \<and> \<not> (\<exists>md. m ''markdown'' = Some (JString md) \<and> md \<noteq> [])
              \<and> \<not> (m ''data'' \<noteq> None \<and> BotType cfg = ''workflow'')) \<longrightarrow>
         (length difyResponse \<le> 2048 \<longrightarrow>
            P = ([EvSendText difyResponse], of_error (SendTextMessage w difyResponse)))
       \<and> (2048 < length difyResponse \<longrightarrow>
            (\<forall>truncatedResponse.
               slice_to (runeSliceCap w (length (stringtoslicerune difyResponse)))
                 (stringtoslicerune difyResponse) 1998 = Some truncatedResponse \<longrightarrow>
               P = ([EvSendText (slicerunetostring truncatedResponse @ truncationNote)],
                    of_error (SendTextMessage w
                      (slicerunetostring truncatedResponse @ truncationNote))))
          \<and> (slice_to (runeSliceCap w (length (stringtoslicerune difyResponse)))
                 (stringtoslicerune difyResponse) 1998 = None \<longrightarrow>
               P = ([], Panic)))
       \<and> (snd P \<noteq> Panic \<longrightarrow>
            (\<exists>text. fst P = [EvSendText text] \<and> snd P = of_error (SendTextMessage w text))))"
proof -
  have text_path: "postprocess_text w difyResponse =
      (if 2048 < length difyResponse then
         (case slice_to (runeSliceCap w (length (stringtoslicerune difyResponse)))
                 (stringtoslicerune difyResponse) 1998 of
            None \<Rightarrow> ([], Panic)
          | Some truncatedResponse \<Rightarrow>
              ([EvSendText (slicerunetostring truncatedResponse @ truncationNote)],
               of_error (SendTextMessage w
                 (slicerunetostring truncatedResponse @ truncationNote))))
       else ([EvSendText difyResponse], of_error (SendTextMessage w difyResponse)))"
    by (simp add: postprocess_text_def maxWeComMessageLength_def Let_def split: option.splits)
  have plain: "(length difyResponse \<le> 2048 \<longrightarrow>
            P = ([EvSendText difyResponse], of_error (SendTextMessage w difyResponse)))
       \<and> (2048 < length difyResponse \<longrightarrow>
            (\<forall>truncatedResponse.
               slice_to (runeSliceCap w (length (stringtoslicerune difyResponse)))
                 (stringtoslicerune difyResponse) 1998 = Some truncatedResponse \<longrightarrow>
               P = ([EvSendText (slicerunetostring truncatedResponse @ truncationNote)],
                    of_error (SendTextMessage w
                      (slicerunetostring truncatedResponse @ truncationNote))))
          \<and> (slice_to (runeSliceCap w (length (stringtoslicerune difyResponse)))
                 (stringtoslicerune difyResponse) 1998 = None \<longrightarrow>
               P = ([], Panic)))
       \<and> (snd P \<noteq> Panic \<longrightarrow>
            (\<exists>text. fst P = [EvSendText text] \<and> snd P = of_error (SendTextMessage w text)))"
    if p: "P = postprocess_text w difyResponse"
  proof (cases "2048 < length difyResponse")
    case False
    then show ?thesis by (simp add: p text_path)
  next
    case True
    show ?thesis
    proof (cases "slice_to (runeSliceCap w (length (stringtoslicerune difyResponse)))
                 (stringtoslicerune difyResponse) 1998")
      case None
      with True show ?thesis by (simp add: p text_path)
    next
      case (Some truncatedResponse)
      with True show ?thesis by (simp add: p text_path)
    qed
  qed
  have order: "(\<forall>e. jsonUnmarshalMap w difyResponse = Inl e \<longrightarrow> P = postprocess_text w difyResponse)
    \<and> (\<forall>m. jsonUnmarshalMap w difyResponse = Inr m \<longrightarrow>
         (\<forall>u. m ''image_url'' = Some (JString u) \<and> u \<noteq> [] \<longrightarrow> P = postprocess_image w u)
       \<and> (\<not> (\<exists>u. m ''image_url'' = Some (JString u) \<and> u \<noteq> []) \<longrightarrow>
            (\<forall>f. m ''file_url'' = Some (JString f) \<and> f \<noteq> [] \<longrightarrow> P = postprocess_file w f)
          \<and> (\<not> (\<exists>f. m ''file_url'' = Some (JString f) \<and> f \<noteq> []) \<longrightarrow>
               (\<forall>md. m ''markdown'' = Some (JString md) \<and> md \<noteq> [] \<longrightarrow>
                  P = ([EvSendMarkdown md], of_error (SendMarkdownMessage w md)))
             \<and> (\<not> (\<exists>md. m ''markdown'' = Some (JString md) \<and> md \<noteq> []) \<longrightarrow>
                  (m ''data'' \<noteq> None \<and> BotType cfg = ''workflow'' \<longrightarrow>
                     P = ([EvSendText difyResponse], of_error (SendTextMessage w difyResponse)))
                \<and> (\<not> (m ''data'' \<noteq> None \<and> BotType cfg = ''workflow'') \<longrightarrow>
                     P = postprocess_text w difyResponse)))))
    \<and> (\<forall>u tempFilePath trace.
         osCreateTemp w (tempPattern ''dify_image_*'' ''.png'' u) = Inr tempFilePath
         \<and> DownloadFile w u tempFilePath = (trace, None)
         \<and> SendImageMessage w tempFilePath = None \<longrightarrow>
         snd (postprocess_image w u) = Ok ()
         \<and> sends (fst (postprocess_image w u)) = [EvSendImage tempFilePath])
    \<and> (\<forall>f tempFilePath trace.
         osCreateTemp w (tempPattern ''dify_file_*'' ''.bin'' f) = Inr tempFilePath
         \<and> DownloadFile w f tempFilePath = (trace, None)
         \<and> SendFileMessage w tempFilePath = None \<longrightarrow>
         snd (postprocess_file w f) = Ok ()
         \<and> sends (fst (postprocess_file w f)) = [EvSendFile tempFilePath])"
  proof (intro conjI allI impI)
  fix e assume "jsonUnmarshalMap w difyResponse = Inl e"
  then show "P = postprocess_text w difyResponse"
    by (simp add: P_def postprocessDifyResponse_def)
next
  fix m u
  assume "jsonUnmarshalMap w difyResponse = Inr m" "m ''image_url'' = Some (JString u) \<and> u \<noteq> []"
  then show "P = postprocess_image w u"
    by (simp add: P_def postprocessDifyResponse_def nonempty_string_field_def string_field_def)
next
  fix m f
  assume p: "jsonUnmarshalMap w difyResponse = Inr m"
    and "\<not> (\<exists>u. m ''image_url'' = Some (JString u) \<and> u \<noteq> [])"
    and "m ''file_url'' = Some (JString f) \<and> f \<noteq> []"
  then have "nonempty_string_field m ''image_url'' = None"
    "nonempty_string_field m ''file_url'' = Some f"
    by (simp_all only: nonempty_string_field_None nonempty_string_field_Some not_False_eq_True)
  with p show "P = postprocess_file w f"
    by (simp add: P_def postprocessDifyResponse_def)
next
  fix m md
  assume p: "jsonUnmarshalMap w difyResponse = Inr m"
    and "\<not> (\<exists>u. m ''image_url'' = Some (JString u) \<and> u \<noteq> [])"
    and "\<not> (\<exists>f. m ''file_url'' = Some (JString f) \<and> f \<noteq> [])"
    and "m ''markdown'' = Some (JString md) \<and> md \<noteq> []"
  then have "nonempty_string_field m ''image_url'' = None"
    "nonempty_string_field m ''file_url'' = None"
    "nonempty_string_field m ''markdown'' = Some md"
    by (simp_all only: nonempty_string_field_None nonempty_string_field_Some not_False_eq_True)
  with p show "P = ([EvSendMarkdown md], of_error (SendMarkdownMessage w md))"
    by (simp add: P_def postprocessDifyResponse_def)
next
  fix m
  assume p: "jsonUnmarshalMap w difyResponse = Inr m"
    and "\<not> (\<exists>u. m ''image_url'' = Some (JString u) \<and> u \<noteq> [])"
    and "\<not> (\<exists>f. m ''file_url'' = Some (JString f) \<and> f \<noteq> [])"
    and "\<not> (\<exists>md. m ''markdown'' = Some (JString md) \<and> md \<noteq> [])"
    and d: "m ''data'' \<noteq> None \<and> BotType cfg = ''workflow''"
  then have "nonempty_string_field m ''image_url'' = None"
    "nonempty_string_field m ''file_url'' = None"
    "nonempty_string_field m ''markdown'' = None"
    by (simp_all only: nonempty_string_field_None not_False_eq_True)
  with p d show "P = ([EvSendText difyResponse], of_error (SendTextMessage w difyResponse))"
    by (simp add: P_def postprocessDifyResponse_def)
next
  fix m
  assume p: "jsonUnmarshalMap w difyResponse = Inr m"
    and "\<not> (\<exists>u. m ''image_url'' = Some (JString u) \<and> u \<noteq> [])"
    and "\<not> (\<exists>f. m ''file_url'' = Some (JString f) \<and> f \<noteq> [])"
    and "\<not> (\<exists>md. m ''markdown'' = Some (JString md) \<and> md \<noteq> [])"
    and d: "\<not> (m ''data'' \<noteq> None \<and> BotType cfg = ''workflow'')"
  then have "nonempty_string_field m ''image_url'' = None"
    "nonempty_string_field m ''file_url'' = None"
    "nonempty_string_field m ''markdown'' = None"
    by (simp_all only: nonempty_string_field_None not_False_eq_True)
  with p d show "P = postprocess_text w difyResponse"
    by (auto simp: P_def postprocessDifyResponse_def)
next
  fix u tempFilePath trace
  assume a: "osCreateTemp w (tempPattern ''dify_image_*'' ''.png'' u) = Inr tempFilePath
         \<and> DownloadFile w u tempFilePath = (trace, None)
         \<and> SendImageMessage w tempFilePath = None"
  then have s: "sends trace = []" by (blast dest: sends_download_trace)
  from a have p: "postprocess_image w u =
      (EvCreateTemp (tempPattern ''dify_image_*'' ''.png'' u) # trace
         @ [EvSendImage tempFilePath, EvRemove tempFilePath], Ok ())"
    unfolding postprocess_image_def by (intro postprocess_media_sent) simp_all
  show "snd (postprocess_image w u) = Ok ()" by (simp add: p)
  show "sends (fst (postprocess_image w u)) = [EvSendImage tempFilePath]"
    using s by (simp add: p sends_def)
next
  fix f tempFilePath trace
  assume a: "osCreateTemp w (tempPattern ''dify_file_*'' ''.bin'' f) = Inr tempFilePath
         \<and> DownloadFile w f tempFilePath = (trace, None)
         \<and> SendFileMessage w tempFilePath = None"
  then have s: "sends trace = []" by (blast dest: sends_download_trace)
  from a have p: "postprocess_file w f =
      (EvCreateTemp (tempPattern ''dify_file_*'' ''.bin'' f) # trace
         @ [EvSendFile tempFilePath, EvRemove tempFilePath], Ok ())"
    unfolding postprocess_file_def by (intro postprocess_media_sent) simp_all
  show "snd (postprocess_file w f) = Ok ()" by (simp add: p)
  show "sends (fst (postprocess_file w f)) = [EvSendFile tempFilePath]"
    using s by (simp add: p sends_def)
qed
  have taken: "P = postprocess_text w difyResponse"
    if c: "(\<exists>e. jsonUnmarshalMap w difyResponse = Inl e)
        \<or> (\<exists>m. jsonUnmarshalMap w difyResponse = Inr m
              \<and> \<not> (\<exists>u. m ''image_url'' = Some (JString u) \<and> u \<noteq> [])
              \<and> \<not> (\<exists>f. m ''file_url'' = Some (JString f) \<and> f \<noteq> [])
              \<and> \<not> (\<exists>md. m ''markdown'' = Some (JString md) \<and> md \<noteq> [])
              \<and> \<not> (m ''data'' \<noteq> None \<and> BotType cfg = ''workflow''))"
  proof -
    from c consider e where "jsonUnmarshalMap w difyResponse = Inl e"
      | m where "jsonUnmarshalMap w difyResponse = Inr m"
          "\<not> (\<exists>u. m ''image_url'' = Some (JString u) \<and> u \<noteq> [])"
          "\<not> (\<exists>f. m ''file_url'' = Some (JString f) \<and> f \<noteq> [])"
          "\<not> (\<exists>md. m ''markdown'' = Some (JString md) \<and> md \<noteq> [])"
          "\<not> (m ''data'' \<noteq> None \<and> BotType cfg = ''workflow'')"
      by (elim disjE exE conjE)
    then show ?thesis
    proof cases
      case 1
      then show ?thesis
        using order[THEN conjunct1] by (elim allE impE)
    next
      case 2
      from 2(2,3,4) have "nonempty_string_field m ''image_url'' = None"
        "nonempty_string_field m ''file_url'' = None"
        "nonempty_string_field m ''markdown'' = None"
        by (simp_all only: nonempty_string_field_None not_False_eq_True)
      with 2(1,5) show ?thesis
        by (auto simp: P_def postprocessDifyResponse_def)
    qed
  qed
  have last: "(\<exists>e. jsonUnmarshalMap w difyResponse = Inl e)
        \<or> (\<exists>m. jsonUnmarshalMap w difyResponse = Inr m
              \<and> \<not> (\<exists>u. m ''image_url'' = Some (JString u) \<and> u \<noteq> [])
              \<and> \<not> (\<exists>f. m ''file_url'' = Some (JString f) \<and> f \<noteq> [])
              \<and> \<not> (\<exists>md. m ''markdown'' = Some (JString md) \<and> md \<noteq> [])
              \<and> \<not> (m ''data'' \<noteq> None \<and> BotType cfg = ''workflow'')) \<longrightarrow>
         (length difyResponse \<le> 2048 \<longrightarrow>
            P = ([EvSendText difyResponse], of_error (SendTextMessage w difyResponse)))
       \<and> (2048 < length difyResponse \<longrightarrow>
            (\<forall>truncatedResponse.
               slice_to (runeSliceCap w (length (stringtoslicerune difyResponse)))
                 (stringtoslicerune difyResponse) 1998 = Some truncatedResponse \<longrightarrow>
               P = ([EvSendText (slicerunetostring truncatedResponse @ truncationNote)],
                    of_error (SendTextMessage w
                      (slicerunetostring truncatedResponse @ truncationNote))))
          \<and> (slice_to (runeSliceCap w (length (stringtoslicerune difyResponse)))
                 (stringtoslicerune difyResponse) 1998 = None \<longrightarrow>
               P = ([], Panic)))
       \<and> (snd P \<noteq> Panic \<longrightarrow>
            (\<exists>text. fst P = [EvSendText text] \<and> snd P = of_error (SendTextMessage w text)))"
  proof (rule impI)
    assume "(\<exists>e. jsonUnmarshalMap w difyResponse = Inl e)
        \<or> (\<exists>m. jsonUnmarshalMap w difyResponse = Inr m
              \<and> \<not> (\<exists>u. m ''image_url'' = Some (JString u) \<and> u \<noteq> [])
              \<and> \<not> (\<exists>f. m ''file_url'' = Some (JString f) \<and> f \<noteq> [])
              \<and> \<not> (\<exists>md. m ''markdown'' = Some (JString md) \<and> md \<noteq> [])
              \<and> \<not> (m ''data'' \<noteq> None \<and> BotType cfg = ''workflow''))"
    then have "P = postprocess_text w difyResponse" by (rule taken)
    then show "(length difyResponse \<le> 2048 \<longrightarrow>
            P = ([EvSendText difyResponse], of_error (SendTextMessage w difyResponse)))
       \<and> (2048 < length difyResponse \<longrightarrow>
            (\<forall>truncatedResponse.
               slice_to (runeSliceCap w (length (stringtoslicerune difyResponse)))
                 (stringtoslicerune difyResponse) 1998 = Some truncatedResponse \<longrightarrow>
               P = ([EvSendText (slicerunetostring truncatedResponse @ truncationNote)],
                    of_error (SendTextMessage w
                      (slicerunetostring truncatedResponse @ truncationNote))))
          \<and> (slice_to (runeSliceCap w (length (stringtoslicerune difyResponse)))
                 (stringtoslicerune difyResponse) 1998 = None \<longrightarrow>
               P = ([], Panic)))
       \<and> (snd P \<noteq> Panic \<longrightarrow>
            (\<exists>text. fst P = [EvSendText text] \<and> snd P = of_error (SendTextMessage w text)))"
      by (rule plain)
  qed
  show ?thesis
    by (rule conjI[OF order[THEN conjunct1]
          conjI[OF order[THEN conjunct2, THEN conjunct1]
            conjI[OF order[THEN conjunct2, THEN conjunct2, THEN conjunct1]
              conjI[OF order[THEN conjunct2, THEN conjunct2, THEN conjunct2] last]]]])
qed

theorem C3_decision_order_witness:
  "postprocessDifyResponse example_cfg (serving_world image_object) ''payload''
     = ([EvCreateTemp ''dify_image_*.png'', EvHttpGet ''http://x/y.png'',
         EvOsCreate ''/tmp/dify_image_*.png'',
         EvCopyBody ''http://x/y.png'' ''/tmp/dify_image_*.png'',
         EvSendImage ''/tmp/dify_image_*.png'', EvRemove ''/tmp/dify_image_*.png''], Ok ())
   \<and> sends (fst (postprocess_image (serving_world image_object) ''http://x/y.png''))
     = [EvSendImage ''/tmp/dify_image_*.png'']
   \<and> postprocessDifyResponse (example_cfg\<lparr>BotType := ''workflow''\<rparr>)
        (parsing_world [''markdown'' \<mapsto> JString ''# hi'', ''data'' \<mapsto> JNull]) ''payload''
     = ([EvSendMarkdown ''# hi''], Ok ())
   \<and> postprocessDifyResponse example_cfg offline_world ''hi there''
     = ([EvSendText ''hi there''], Ok ())
   \<and> postprocessDifyResponse example_cfg (parsing_world [''data'' \<mapsto> JNull]) ''payload''
     = ([EvSendText ''payload''], Ok ())"
proof -
  let ?w = "serving_world image_object"
  let ?v = "parsing_world [''markdown'' \<mapsto> JString ''# hi'', ''data'' \<mapsto> JNull]"
  let ?d = "parsing_world [''data'' \<mapsto> JNull]"
  have dl: "DownloadFile ?w ''http://x/y.png'' ''/tmp/dify_image_*.png''
      = ([EvHttpGet ''http://x/y.png'', EvOsCreate ''/tmp/dify_image_*.png'',
          EvCopyBody ''http://x/y.png'' ''/tmp/dify_image_*.png''], None)"
    by (simp add: DownloadFile_def serving_world_fields)
  have img: "postprocess_image ?w ''http://x/y.png''
     = ([EvCreateTemp ''dify_image_*.png'', EvHttpGet ''http://x/y.png'',
         EvOsCreate ''/tmp/dify_image_*.png'',
         EvCopyBody ''http://x/y.png'' ''/tmp/dify_image_*.png'',
         EvSendImage ''/tmp/dify_image_*.png'', EvRemove ''/tmp/dify_image_*.png''], Ok ())"
    by (simp add: postprocess_image_def postprocess_media_def tempPattern_example
        serving_world_fields dl Let_def)
  have parse: "jsonUnmarshalMap ?w ''payload'' = Inr image_object"
    by (simp add: serving_world_fields)
  have field: "image_object ''image_url'' = Some (JString ''http://x/y.png'') \<and> ''http://x/y.png'' \<noteq> []"
    by (simp add: image_object_def)
  have ok: "osCreateTemp ?w (tempPattern ''dify_image_*'' ''.png'' ''http://x/y.png'')
              = Inr ''/tmp/dify_image_*.png''
         \<and> DownloadFile ?w ''http://x/y.png'' ''/tmp/dify_image_*.png''
              = ([EvHttpGet ''http://x/y.png'', EvOsCreate ''/tmp/dify_image_*.png'',
                  EvCopyBody ''http://x/y.png'' ''/tmp/dify_image_*.png''], None)
         \<and> SendImageMessage ?w ''/tmp/dify_image_*.png'' = None"
    by (simp add: tempPattern_example serving_world_fields dl)
  note T1 = C3_decision_order[of ?w "''payload''" example_cfg]
  have "postprocessDifyResponse example_cfg ?w ''payload'' = postprocess_image ?w ''http://x/y.png''"
    by (rule T1[THEN conjunct2, THEN conjunct1, THEN spec, THEN mp, OF parse, THEN conjunct1,
          THEN spec, THEN mp, OF field])
  then have a: "postprocessDifyResponse example_cfg ?w ''payload''
     = ([EvCreateTemp ''dify_image_*.png'', EvHttpGet ''http://x/y.png'',
         EvOsCreate ''/tmp/dify_image_*.png'',
         EvCopyBody ''http://x/y.png'' ''/tmp/dify_image_*.png'',
         EvSendImage ''/tmp/dify_image_*.png'', EvRemove ''/tmp/dify_image_*.png''], Ok ())"
    by (simp only: img)
  have b: "sends (fst (postprocess_image ?w ''http://x/y.png'')) = [EvSendImage ''/tmp/dify_image_*.png'']"
    by (rule T1[THEN conjunct2, THEN conjunct2, THEN conjunct1, THEN spec, THEN spec, THEN spec,
          THEN mp, OF ok, THEN conjunct2])
  have parse': "jsonUnmarshalMap ?v ''payload''
      = Inr [''markdown'' \<mapsto> JString ''# hi'', ''data'' \<mapsto> JNull]"
    by (simp add: parsing_world_fields)
  have noimg: "\<not> (\<exists>u. [''markdown'' \<mapsto> JString ''# hi'', ''data'' \<mapsto> JNull] ''image_url''
                     = Some (JString u) \<and> u \<noteq> [])"
    and nofile: "\<not> (\<exists>f. [''markdown'' \<mapsto> JString ''# hi'', ''data'' \<mapsto> JNull] ''file_url''
                     = Some (JString f) \<and> f \<noteq> [])"
    and md: "[''markdown'' \<mapsto> JString ''# hi'', ''data'' \<mapsto> JNull] ''markdown''
                     = Some (JString ''# hi'') \<and> ''# hi'' \<noteq> []"
    by simp_all
  note T2 = C3_decision_order[of ?v "''payload''" "example_cfg\<lparr>BotType := ''workflow''\<rparr>"]
  have "postprocessDifyResponse (example_cfg\<lparr>BotType := ''workflow''\<rparr>) ?v ''payload''
     = ([EvSendMarkdown ''# hi''], of_error (SendMarkdownMessage ?v ''# hi''))"
    by (rule T2[THEN conjunct2, THEN conjunct1, THEN spec, THEN mp, OF parse', THEN conjunct2,
          THEN mp, OF noimg, THEN conjunct2, THEN mp, OF nofile, THEN conjunct1, THEN spec,
          THEN mp, OF md])
  then have c: "postprocessDifyResponse (example_cfg\<lparr>BotType := ''workflow''\<rparr>) ?v ''payload''
     = ([EvSendMarkdown ''# hi''], Ok ())"
    by (simp add: parsing_world_fields of_error_def)
  have unparsed: "(\<exists>e. jsonUnmarshalMap offline_world ''hi there'' = Inl e)
        \<or> (\<exists>m. jsonUnmarshalMap offline_world ''hi there'' = Inr m
              \<and> \<not> (\<exists>u. m ''image_url'' = Some (JString u) \<and> u \<noteq> [])
              \<and> \<not> (\<exists>f. m ''file_url'' = Some (JString f) \<and> f \<noteq> [])
              \<and> \<not> (\<exists>md. m ''markdown'' = Some (JString md) \<and> md \<noteq> [])
              \<and> \<not> (m ''data'' \<noteq> None \<and> BotType example_cfg = ''workflow''))"
    by (simp add: offline_world_def)
  have short1: "length ''hi there'' \<le> 2048" by simp
  have "postprocessDifyResponse example_cfg offline_world ''hi there''
     = ([EvSendText ''hi there''], of_error (SendTextMessage offline_world ''hi there''))"
    by (rule C3_decision_order[of offline_world "''hi there''" example_cfg,
          THEN conjunct2, THEN conjunct2, THEN conjunct2, THEN conjunct2, THEN mp, OF unparsed,
          THEN conjunct1, THEN mp, OF short1])
  then have d: "postprocessDifyResponse example_cfg offline_world ''hi there''
     = ([EvSendText ''hi there''], Ok ())"
    by (simp add: offline_world_def of_error_def)
  have other: "(\<exists>e. jsonUnmarshalMap ?d ''payload'' = Inl e)
        \<or> (\<exists>m. jsonUnmarshalMap ?d ''payload'' = Inr m
              \<and> \<not> (\<exists>u. m ''image_url'' = Some (JString u) \<and> u \<noteq> [])
              \<and> \<not> (\<exists>f. m ''file_url'' = Some (JString f) \<and> f \<noteq> [])
              \<and> \<not> (\<exists>md. m ''markdown'' = Some (JString md) \<and> md \<noteq> [])
              \<and> \<not> (m ''data'' \<noteq> None \<and> BotType example_cfg = ''workflow''))"
    by (simp add: parsing_world_fields example_cfg_def)
  have short2: "length ''payload'' \<le> 2048" by simp
  have "postprocessDifyResponse example_cfg ?d ''payload''
     = ([EvSendText ''payload''], of_error (SendTextMessage ?d ''payload''))"
    by (rule C3_decision_order[of ?d "''payload''" example_cfg,
          THEN conjunct2, THEN conjunct2, THEN conjunct2, THEN conjunct2, THEN mp, OF other,
          THEN conjunct1, THEN mp, OF short2])
  then have e: "postprocessDifyResponse example_cfg ?d ''payload''
     = ([EvSendText ''payload''], Ok ())"
    by (simp add: parsing_world_fields of_error_def)
  from a b c d e show ?thesis by (intro conjI)
qed



section \<open>The length of a truncated text\<close>

lemma decoderune_ascii: "byte c < 0x80 \<Longrightarrow> decoderune (c # s) = (int (byte c), 1)"
  by simp

lemma stringtoslicerune_ascii:
  "\<forall>c \<in> set s. byte c < 0x80 \<Longrightarrow> stringtoslicerune s = map (\<lambda>c. int (byte c)) s"
  by (induction s) simp_all

lemma encoderune_ascii:
  assumes "byte c < 0x80"
  shows "encoderune (int (byte c)) = [c]"
proof -
  have "0 \<le> int (byte c)" "int (byte c) \<le> 0x7F"
    using assms by simp_all
  then have "encoderune (int (byte c)) = [char_of (int (byte c))]"
    by (simp add: encoderune_def)
  also have "char_of (int (byte c)) = c"
    by (simp add: byte_def of_nat_of_char)
  finally show ?thesis .
qed

lemma slicerunetostring_ascii:
  "\<forall>c \<in> set s. byte c < 0x80 \<Longrightarrow> slicerunetostring (map (\<lambda>c. int (byte c)) s) = s"
  by (induction s) (simp_all add: slicerunetostring_def encoderune_ascii)

lemma slice_to_within: "high \<le> length a \<Longrightarrow> slice_to capacity a high = Some (take high a)"
  by (simp add: slice_to_def)

lemma length_truncationNote: "length truncationNote = 64"
  by (simp add: truncationNote_def)

lemma postprocess_text_ascii_long:
  assumes ascii: "\<forall>c \<in> set difyResponse. byte c < 0x80"
    and long: "maxWeComMessageLength < length difyResponse"
  shows "postprocess_text w difyResponse =
     ([EvSendText (take 1998 difyResponse @ truncationNote)],
      of_error (SendTextMessage w (take 1998 difyResponse @ truncationNote)))"
proof -
  have runes: "stringtoslicerune difyResponse = map (\<lambda>c. int (byte c)) difyResponse"
    using ascii by (rule stringtoslicerune_ascii)
  have "maxWeComMessageLength - 50 \<le> length (map (\<lambda>c. int (byte c)) difyResponse)"
    using long by simp
  then have sliced: "slice_to capacity (map (\<lambda>c. int (byte c)) difyResponse) (maxWeComMessageLength - 50)
      = Some (map (\<lambda>c. int (byte c)) (take 1998 difyResponse))" for capacity
    by (simp add: slice_to_within take_map maxWeComMessageLength_def)
  have "\<forall>c \<in> set (take 1998 difyResponse). byte c < 0x80"
    using ascii by (meson in_set_takeD)
  then have encoded: "slicerunetostring (map (\<lambda>c. int (byte c)) (take 1998 difyResponse))
      = take 1998 difyResponse"
    by (rule slicerunetostring_ascii)
  show ?thesis
    using long by (simp add: postprocess_text_def runes sliced encoded Let_def)
qed

lemma stringtoslicerune_three_byte:
  "stringtoslicerune (concat (replicate n [CHR 0xE5, CHR 0x91, CHR 0x98])) = replicate n 0x5458"
  by (induction n) (simp_all add: byte_def continuation_def)

lemma postprocess_text_multibyte:
  fixes w payload
  defines "payload \<equiv> concat (replicate 683 [CHR 0xE5, CHR 0x91, CHR 0x98])"
  shows "length payload = 2049"
    and "runeSliceCap w 683 < 1998 \<Longrightarrow> postprocess_text w payload = ([], Panic)"
    and "1998 \<le> runeSliceCap w 683 \<Longrightarrow>
         postprocess_text w payload =
           ([EvSendText (payload @ replicate 1315 (CHR 0x00) @ truncationNote)],
            of_error (SendTextMessage w (payload @ replicate 1315 (CHR 0x00) @ truncationNote)))"
proof -
  show len: "length payload = 2049"
    by (simp add: payload_def length_concat sum_list_replicate)
  have runes: "stringtoslicerune payload = replicate 683 0x5458"
    unfolding payload_def by (rule stringtoslicerune_three_byte)
  have long: "maxWeComMessageLength < length payload"
    by (simp add: len maxWeComMessageLength_def)
  show "postprocess_text w payload = ([], Panic)" if "runeSliceCap w 683 < 1998"
    using that long
    by (simp add: postprocess_text_def runes slice_to_def maxWeComMessageLength_def Let_def max_def)
  have enc: "slicerunetostring (replicate n 0x5458) = concat (replicate n [CHR 0xE5, CHR 0x91, CHR 0x98])" for n
    by (induction n) (simp_all add: slicerunetostring_def encoderune_def char_of_def)
  have enc683: "slicerunetostring (replicate 683 0x5458) = payload"
    unfolding payload_def by (rule enc)
  have zeros: "slicerunetostring (replicate n 0) = replicate n (CHR 0x00)" for n
    by (induction n) (simp_all add: slicerunetostring_def encoderune_def char_of_def)
  have app: "slicerunetostring (a @ b) = slicerunetostring a @ slicerunetostring b" for a b
    by (simp add: slicerunetostring_def)
  show "postprocess_text w payload =
           ([EvSendText (payload @ replicate 1315 (CHR 0x00) @ truncationNote)],
            of_error (SendTextMessage w (payload @ replicate 1315 (CHR 0x00) @ truncationNote)))"
    if "1998 \<le> runeSliceCap w 683"
    using that long
    by (simp add: postprocess_text_def runes slice_to_def maxWeComMessageLength_def app enc683
        zeros Let_def max_def)
qed

text \<open>
  C1 at a payload of 2049 bytes, each the letter \<open>a\<close>, that is not JSON: the text
  sent is the first 1998 bytes followed by the note of 64 bytes, 2062 bytes in all,
  which is more than the limit of 2048 bytes.
\<close>

theorem C1_truncated_text_exceeds_limit:
  "postprocessDifyResponse example_cfg offline_world (replicate 2049 (CHR ''a''))
     = ([EvSendText (replicate 1998 (CHR ''a'') @ truncationNote)], Ok ())
   \<and> length (replicate 1998 (CHR ''a'') @ truncationNote) = 2062
   \<and> maxWeComMessageLength = 2048"
proof -
  have ascii: "\<forall>c \<in> set (replicate 2049 (CHR ''a'')). byte c < 0x80"
    by (simp add: byte_def)
  have long: "maxWeComMessageLength < length (replicate 2049 (CHR ''a''))"
    by (simp add: maxWeComMessageLength_def)
  have "postprocessDifyResponse example_cfg offline_world (replicate 2049 (CHR ''a''))
      = postprocess_text offline_world (replicate 2049 (CHR ''a''))"
    by (simp add: postprocessDifyResponse_def offline_world_def)
  also have "\<dots> = ([EvSendText (take 1998 (replicate 2049 (CHR ''a'')) @ truncationNote)],
      of_error (SendTextMessage offline_world
         (take 1998 (replicate 2049 (CHR ''a'')) @ truncationNote)))"
    using ascii long by (rule postprocess_text_ascii_long)
  also have "\<dots> = ([EvSendText (replicate 1998 (CHR ''a'') @ truncationNote)], Ok ())"
    by (simp add: of_error_def offline_world_def)
  finally show ?thesis
    by (simp add: length_truncationNote maxWeComMessageLength_def)
qed

end
